theory Spec2Isabelle
  imports Main
begin

section \<open>Background side (ws-client.ts): data model\<close>

text \<open>
  The module keeps three module-level variables (\<open>currentConnection\<close>,
  \<open>heartbeatInterval\<close>, \<open>heartbeatTimeout\<close>) and talks to four host facilities:
  WebSocket objects, the timer table (\<open>setInterval\<close>/\<open>setTimeout\<close>), \<open>chrome.alarms\<close>
  and \<open>chrome.runtime.sendMessage\<close>. All of them are fields of one explicit state record;
  every function of the module is a state transformer. WebSocket objects live in a store
  (a list, a reference is an index), because closures and the connection slot alias them.
\<close>

type_synonym session_name = string
type_synonym ws_ref = nat
type_synonym timer_id = nat

datatype ready_state = CONNECTING | OPEN | CLOSING | CLOSED

text \<open>JSON documents: what \<open>JSON.parse\<close> returns and what \<open>JSON.stringify\<close> is given.
  An object is the list of its properties, each name once.\<close>

datatype json = JNull | JBool bool | JNum int | JStr string | JArr "json list"
  | JObj "(string \<times> json) list"

datatype js_error = InvalidStateError | SyntaxError | TypeError | DispatcherRejected
  | NoReceivingEnd

datatype log_level = TRACE | DEBUG | INFO | WARN | ERROR

datatype promise_state = Pending | Resolved | Rejected string

text \<open>
  A WebSocket object together with the variables its handlers close over: the arguments
  of the \<open>connectToSession\<close> call that created it and that call's promise.
\<close>

record socket =
  readyState :: ready_state
  url_port :: nat
  sent :: "json list"
  env_sessionName :: session_name
  env_port :: nat
  env_tabId :: int
  promise :: promise_state

record connection =
  ws :: ws_ref
  sessionName :: session_name
  port :: nat
  tabId :: "int option"

datatype callback = HeartbeatCycle ws_ref | PongTimeout ws_ref

record timer =
  repeating :: bool
  delay_ms :: nat
  callback :: callback

datatype runtime_msg = CONNECTION_CLOSED

record chrome_tab =
  chrome_title :: "string option"
  chrome_url :: "string option"

record tab_info =
  tab_id :: int
  tab_title :: string
  tab_url :: string

record connection_status =
  connected :: bool
  status_sessionName :: "session_name option"
  status_tabId :: "int option"

record state =
  sockets :: "socket list"
  currentConnection :: "connection option"
  heartbeatInterval :: "timer_id option"
  heartbeatTimeout :: "timer_id option"
  timers :: "timer_id \<rightharpoonup> timer"
  next_timer :: timer_id
  alarms :: "string \<rightharpoonup> nat"
  listener :: bool
  runtime_messages :: "runtime_msg list"
  tool_requests :: "(json \<times> int option) list"
  tab_queries :: "(int \<times> ws_ref) list"
  logs :: "(log_level \<times> string) list"
  uncaught :: "js_error list"
  failed_connects :: "js_error list"

definition KEEPALIVE_ALARM_NAME :: string where
  "KEEPALIVE_ALARM_NAME = ''jake-ws-keepalive''"

text \<open>\<open>KEEPALIVE_INTERVAL_MINUTES = 0.4\<close>; the alarm table stores the period in seconds.\<close>

definition KEEPALIVE_INTERVAL_SECONDS :: nat where
  "KEEPALIVE_INTERVAL_SECONDS = 24"

definition HEARTBEAT_INTERVAL_MS :: nat where
  "HEARTBEAT_INTERVAL_MS = 15000"

definition HEARTBEAT_TIMEOUT_MS :: nat where
  "HEARTBEAT_TIMEOUT_MS = 10000"

text \<open>The module as loaded: no socket, empty slot, no timer (handles start at 1, so a
  handle is always truthy), no alarm. \<open>failed_connects\<close> collects the errors of connect
  promises that were rejected because the executor threw before a socket existed.\<close>

definition init :: state where
  "init = \<lparr> sockets = [], currentConnection = None, heartbeatInterval = None,
     heartbeatTimeout = None, timers = Map.empty, next_timer = 1, alarms = Map.empty,
     listener = False, runtime_messages = [], tool_requests = [], tab_queries = [],
     logs = [], uncaught = [], failed_connects = [] \<rparr>"

section \<open>Host facilities\<close>

text \<open>The logger is an external collaborator; the model keeps its calls (level and
  message, without the constant tag \<open>'WS'\<close>). Where the source interpolates a field of a
  request into the message or passes an error object along, the entry holds the fixed
  text only; that the interpolation can throw is part of the handlers below.\<close>

definition log :: "log_level \<Rightarrow> string \<Rightarrow> state \<Rightarrow> state" where
  "log lvl msg s = s\<lparr>logs := logs s @ [(lvl, msg)]\<rparr>"

text \<open>An exception that leaves a callback reaches the host.\<close>

definition throw_uncaught :: "js_error \<Rightarrow> state \<Rightarrow> state" where
  "throw_uncaught e s = s\<lparr>uncaught := uncaught s @ [e]\<rparr>"

subsection \<open>WebSocket\<close>

definition socket_at :: "state \<Rightarrow> ws_ref \<Rightarrow> socket option" where
  "socket_at s w = (if w < length (sockets s) then Some (sockets s ! w) else None)"

text \<open>A reference that names no socket of the store reads as closed; no such reference
  is ever built (\<open>new_WebSocket\<close> is the only source of references).\<close>

definition ws_readyState :: "state \<Rightarrow> ws_ref \<Rightarrow> ready_state" where
  "ws_readyState s w = (case socket_at s w of None \<Rightarrow> CLOSED | Some k \<Rightarrow> readyState k)"

definition update_socket :: "ws_ref \<Rightarrow> (socket \<Rightarrow> socket) \<Rightarrow> state \<Rightarrow> state" where
  "update_socket w f s =
     (case socket_at s w of
        None \<Rightarrow> s
      | Some k \<Rightarrow> s\<lparr>sockets := (sockets s)[w := f k]\<rparr>)"

text \<open>The frames transmitted on a socket so far.\<close>

definition ws_sent :: "state \<Rightarrow> ws_ref \<Rightarrow> json list" where
  "ws_sent s w = (case socket_at s w of None \<Rightarrow> [] | Some k \<Rightarrow> sent k)"

text \<open>A fresh WebSocket object in state CONNECTING, with the variables its handlers
  close over. The reference of the new object is the old length of the store.\<close>

definition alloc_socket :: "session_name \<Rightarrow> nat \<Rightarrow> int \<Rightarrow> state \<Rightarrow> state" where
  "alloc_socket name p tab s =
     s\<lparr>sockets := sockets s @
        [\<lparr> readyState = CONNECTING, url_port = p, sent = [], env_sessionName = name,
           env_port = p, env_tabId = tab, promise = Pending \<rparr>]\<rparr>"

text \<open>\<open>new WebSocket(`ws://127.0.0.1:${port}`)\<close>: the constructor parses the URL first and
  throws a SyntaxError when the port is above 65535; no object exists then. Otherwise it
  returns a fresh object in state CONNECTING.\<close>

definition new_WebSocket :: "session_name \<Rightarrow> nat \<Rightarrow> int \<Rightarrow> state \<Rightarrow> js_error + state" where
  "new_WebSocket name p tab s =
     (if 65535 < p then Inl SyntaxError else Inr (alloc_socket name p tab s))"

text \<open>\<open>ws.send(data)\<close>: throws while CONNECTING, transmits while OPEN, and discards the
  data without an exception once the socket is CLOSING or CLOSED.\<close>

definition ws_send :: "ws_ref \<Rightarrow> json \<Rightarrow> state \<Rightarrow> js_error + state" where
  "ws_send w d s =
     (case ws_readyState s w of
        CONNECTING \<Rightarrow> Inl InvalidStateError
      | OPEN \<Rightarrow> Inr (update_socket w (\<lambda>k. k\<lparr>sent := sent k @ [d]\<rparr>) s)
      | CLOSING \<Rightarrow> Inr s
      | CLOSED \<Rightarrow> Inr s)"

text \<open>\<open>ws.close()\<close>: a socket that is CONNECTING or OPEN becomes CLOSING at once (its
  close event is delivered later, by the host); on a CLOSING or CLOSED socket it does
  nothing. It never throws.\<close>

definition ws_close :: "ws_ref \<Rightarrow> state \<Rightarrow> state" where
  "ws_close w s =
     (case ws_readyState s w of
        CONNECTING \<Rightarrow> update_socket w (\<lambda>k. k\<lparr>readyState := CLOSING\<rparr>) s
      | OPEN \<Rightarrow> update_socket w (\<lambda>k. k\<lparr>readyState := CLOSING\<rparr>) s
      | CLOSING \<Rightarrow> s
      | CLOSED \<Rightarrow> s)"

definition resolve :: "ws_ref \<Rightarrow> state \<Rightarrow> state" where
  "resolve w s =
     update_socket w (\<lambda>k. if promise k = Pending then k\<lparr>promise := Resolved\<rparr> else k) s"

definition reject :: "ws_ref \<Rightarrow> string \<Rightarrow> state \<Rightarrow> state" where
  "reject w msg s =
     update_socket w (\<lambda>k. if promise k = Pending then k\<lparr>promise := Rejected msg\<rparr> else k) s"

subsection \<open>Timers\<close>

definition setInterval :: "callback \<Rightarrow> nat \<Rightarrow> state \<Rightarrow> timer_id \<times> state" where
  "setInterval cb d s =
     (next_timer s,
      s\<lparr>timers := (timers s)(next_timer s \<mapsto> \<lparr>repeating = True, delay_ms = d, callback = cb\<rparr>),
        next_timer := Suc (next_timer s)\<rparr>)"

definition setTimeout :: "callback \<Rightarrow> nat \<Rightarrow> state \<Rightarrow> timer_id \<times> state" where
  "setTimeout cb d s =
     (next_timer s,
      s\<lparr>timers := (timers s)(next_timer s \<mapsto> \<lparr>repeating = False, delay_ms = d, callback = cb\<rparr>),
        next_timer := Suc (next_timer s)\<rparr>)"

definition clearInterval :: "timer_id \<Rightarrow> state \<Rightarrow> state" where
  "clearInterval t s = s\<lparr>timers := (timers s)(t := None)\<rparr>"

definition clearTimeout :: "timer_id \<Rightarrow> state \<Rightarrow> state" where
  "clearTimeout t s = s\<lparr>timers := (timers s)(t := None)\<rparr>"

subsection \<open>chrome.runtime.sendMessage\<close>

text \<open>The message is handed to the runtime; the returned promise is rejected when no
  extension page listens. The result is the promise's outcome.\<close>

definition runtime_sendMessage :: "runtime_msg \<Rightarrow> state \<Rightarrow> js_error option \<times> state" where
  "runtime_sendMessage m s =
     (if listener s then None else Some NoReceivingEnd,
      s\<lparr>runtime_messages := runtime_messages s @ [m]\<rparr>)"

subsection \<open>chrome.alarms\<close>

definition alarms_create :: "string \<Rightarrow> nat \<Rightarrow> state \<Rightarrow> state" where
  "alarms_create name period s = s\<lparr>alarms := (alarms s)(name \<mapsto> period)\<rparr>"

definition alarms_clear :: "string \<Rightarrow> state \<Rightarrow> state" where
  "alarms_clear name s = s\<lparr>alarms := (alarms s)(name := None)\<rparr>"

subsection \<open>JSON values the module builds and reads\<close>

definition ping_frame :: json where
  "ping_frame = JObj [(''type'', JStr ''ping'')]"

definition status_frame :: "tab_info option \<Rightarrow> json" where
  "status_frame tab =
     JObj [(''type'', JStr ''EXTENSION_STATUS''),
           (''tab'', case tab of
                       None \<Rightarrow> JNull
                     | Some t \<Rightarrow> JObj [(''id'', JNum (tab_id t)), (''title'', JStr (tab_title t)),
                                      (''url'', JStr (tab_url t))])]"

text \<open>\<open>value.name\<close> for a property name that no prototype defines (\<open>type\<close>, \<open>id\<close>):
  reading a property of \<open>null\<close> throws a TypeError; an object yields its own property or
  \<open>undefined\<close> (here \<open>None\<close>); every other JSON value yields \<open>undefined\<close>.\<close>

fun get_prop :: "json \<Rightarrow> string \<Rightarrow> js_error + json option" where
  "get_prop JNull name = Inl TypeError"
| "get_prop (JObj kvs) name = Inr (map_of kvs name)"
| "get_prop (JBool b) name = Inr None"
| "get_prop (JNum n) name = Inr None"
| "get_prop (JStr x) name = Inr None"
| "get_prop (JArr xs) name = Inr None"

text \<open>Whether a parsed value can be converted to a string, as a template literal does
  with an interpolated value. An object is converted by its \<open>toString\<close>: the inherited one
  unless the object has a property of that name, and then the property (a JSON value, so
  not callable) is skipped, the inherited \<open>valueOf\<close> returns the object itself, and the
  conversion throws a TypeError. An array converts its elements (\<open>null\<close> to the empty
  string) and throws when one of them does. Every other value converts.\<close>

fun printable :: "json \<Rightarrow> bool" where
  "printable (JObj kvs) = (map_of kvs ''toString'' = None)"
| "printable (JArr xs) = list_all printable xs"
| "printable JNull = True"
| "printable (JBool b) = True"
| "printable (JNum n) = True"
| "printable (JStr x) = True"

text \<open>\<open>`${v}`\<close> throws: \<open>undefined\<close> prints as \<open>undefined\<close>, a value as above.\<close>

definition template_throws :: "json option \<Rightarrow> bool" where
  "template_throws v = (case v of None \<Rightarrow> False | Some j \<Rightarrow> \<not> printable j)"

text \<open>\<open>x || 'Unknown'\<close> on an optional string: \<open>undefined\<close> and the empty string are falsy.\<close>

definition or_unknown :: "string option \<Rightarrow> string" where
  "or_unknown x = (case x of None \<Rightarrow> ''Unknown'' | Some v \<Rightarrow> if v = [] then ''Unknown'' else v)"

section \<open>ws-client.ts: the functions of the module\<close>

subsection \<open>Keepalive alarm management\<close>

definition startKeepaliveAlarm :: "state \<Rightarrow> state" where
  "startKeepaliveAlarm s =
     log INFO ''Keepalive alarm started''
       (alarms_create KEEPALIVE_ALARM_NAME KEEPALIVE_INTERVAL_SECONDS s)"

definition stopKeepaliveAlarm :: "state \<Rightarrow> state" where
  "stopKeepaliveAlarm s =
     log INFO ''Keepalive alarm stopped'' (alarms_clear KEEPALIVE_ALARM_NAME s)"

subsection \<open>Application-level heartbeat\<close>

definition stopHeartbeat :: "state \<Rightarrow> state" where
  "stopHeartbeat s =
     (let s1 = (case heartbeatInterval s of
                  Some t \<Rightarrow> (clearInterval t s)\<lparr>heartbeatInterval := None\<rparr>
                | None \<Rightarrow> s);
          s2 = (case heartbeatTimeout s1 of
                  Some t \<Rightarrow> (clearTimeout t s1)\<lparr>heartbeatTimeout := None\<rparr>
                | None \<Rightarrow> s1)
      in s2)"

text \<open>The callback of the pong timeout: it closes the socket it was armed for and leaves
  \<open>heartbeatTimeout\<close> as it is (a handle of a timer that has fired).\<close>

definition pong_timeout :: "ws_ref \<Rightarrow> state \<Rightarrow> state" where
  "pong_timeout w s =
     ws_close w
       (log WARN ''Heartbeat pong not received within timeout, closing connection'' s)"

text \<open>The callback of the heartbeat interval, for the socket given to \<open>startHeartbeat\<close>.\<close>

definition heartbeat_cycle :: "ws_ref \<Rightarrow> state \<Rightarrow> state" where
  "heartbeat_cycle w s =
     (if ws_readyState s w = OPEN then
        (let s1 = (case heartbeatTimeout s of
                     Some t \<Rightarrow> (clearTimeout t s)\<lparr>heartbeatTimeout := None\<rparr>
                   | None \<Rightarrow> s);
             s2 = log TRACE ''Sending heartbeat ping'' s1
         in case ws_send w ping_frame s2 of
              Inl e \<Rightarrow> throw_uncaught e s2
            | Inr s3 \<Rightarrow>
                (let (t, s4) = setTimeout (PongTimeout w) HEARTBEAT_TIMEOUT_MS s3
                 in s4\<lparr>heartbeatTimeout := Some t\<rparr>))
      else s)"

definition startHeartbeat :: "ws_ref \<Rightarrow> state \<Rightarrow> state" where
  "startHeartbeat w s =
     (let s1 = stopHeartbeat s;
          (t, s2) = setInterval (HeartbeatCycle w) HEARTBEAT_INTERVAL_MS s1
      in log INFO ''Heartbeat started'' (s2\<lparr>heartbeatInterval := Some t\<rparr>))"

definition handlePong :: "state \<Rightarrow> state" where
  "handlePong s =
     (let s1 = (case heartbeatTimeout s of
                  Some t \<Rightarrow> (clearTimeout t s)\<lparr>heartbeatTimeout := None\<rparr>
                | None \<Rightarrow> s)
      in log TRACE ''Heartbeat pong received'' s1)"

subsection \<open>The connection-closed notification\<close>

text \<open>\<open>chrome.runtime.sendMessage({ type: 'CONNECTION_CLOSED' }).catch(() => {})\<close>: the
  empty handler consumes a rejection, so neither outcome reaches \<open>uncaught\<close>.\<close>

definition notify_connection_closed :: "state \<Rightarrow> state" where
  "notify_connection_closed s =
     (case runtime_sendMessage CONNECTION_CLOSED s of
        (None, s') \<Rightarrow> s'
      | (Some e, s') \<Rightarrow> s')"

subsection \<open>handleKeepaliveAlarm\<close>

text \<open>\<open>WebSocket.readyState\<close> as the number a template literal prints.\<close>

definition ready_state_code :: "ready_state \<Rightarrow> string" where
  "ready_state_code r =
     (case r of CONNECTING \<Rightarrow> ''0'' | OPEN \<Rightarrow> ''1'' | CLOSING \<Rightarrow> ''2'' | CLOSED \<Rightarrow> ''3'')"

definition handleKeepaliveAlarm :: "state \<Rightarrow> state" where
  "handleKeepaliveAlarm s =
     (let s0 = log TRACE ''Keepalive alarm fired'' s
      in case currentConnection s0 of
           None \<Rightarrow>
             stopKeepaliveAlarm
               (log INFO ''No active connection during keepalive, stopping alarm'' s0)
         | Some c \<Rightarrow>
             if ws_readyState s0 (ws c) \<noteq> OPEN then
               notify_connection_closed
                 (stopKeepaliveAlarm
                   (stopHeartbeat
                     ((log WARN (''Connection in unexpected state: ''
                          @ ready_state_code (ws_readyState s0 (ws c)) @ '', cleaning up'') s0)
                        \<lparr>currentConnection := None\<rparr>)))
             else log TRACE ''Connection healthy during keepalive check'' s0)"

subsection \<open>connectToSession and the handlers it installs\<close>

text \<open>The promise executor: tear down the connection in the slot, if any, then create
  the socket. The handlers it installs are the functions below, applied to the new
  socket's reference. When the constructor throws, the executor ends there and the
  promise is rejected with the exception; the teardown has happened.\<close>

definition connectToSession :: "session_name \<Rightarrow> nat \<Rightarrow> int \<Rightarrow> state \<Rightarrow> state" where
  "connectToSession name p tab s =
     (let s1 = (case currentConnection s of
                  Some c \<Rightarrow>
                    (ws_close (ws c) (stopKeepaliveAlarm (stopHeartbeat s)))
                      \<lparr>currentConnection := None\<rparr>
                | None \<Rightarrow> s)
      in case new_WebSocket name p tab s1 of
           Inl e \<Rightarrow> s1\<lparr>failed_connects := failed_connects s1 @ [e]\<rparr>
         | Inr s2 \<Rightarrow> s2)"

text \<open>The methods of the \<open>WsClientInstance\<close> built in \<open>ws.onopen\<close>, for the socket \<open>w\<close>
  of that handler.\<close>

definition instance_disconnect :: "ws_ref \<Rightarrow> state \<Rightarrow> state" where
  "instance_disconnect w s = (ws_close w s)\<lparr>currentConnection := None\<rparr>"

definition instance_isConnected :: "ws_ref \<Rightarrow> state \<Rightarrow> bool" where
  "instance_isConnected w s = (ws_readyState s w = OPEN)"

definition instance_getSessionName :: "ws_ref \<Rightarrow> state \<Rightarrow> session_name option" where
  "instance_getSessionName w s = map_option env_sessionName (socket_at s w)"

definition instance_sendStatusUpdate :: "ws_ref \<Rightarrow> tab_info option \<Rightarrow> state \<Rightarrow> state" where
  "instance_sendStatusUpdate w tab s =
     (if ws_readyState s w = OPEN then
        (case ws_send w (status_frame tab) s of
           Inl e \<Rightarrow> throw_uncaught e s
         | Inr s' \<Rightarrow> s')
      else s)"

text \<open>The callback given to \<open>chrome.tabs.get(tabId, ...)\<close>; \<open>tab\<close> is what the tab-info
  collaborator hands back (\<open>None\<close>: no such tab).\<close>

definition tabs_get_callback :: "ws_ref \<Rightarrow> chrome_tab option \<Rightarrow> state \<Rightarrow> state" where
  "tabs_get_callback w tab s =
     (case socket_at s w of
        None \<Rightarrow> s
      | Some k \<Rightarrow>
          (case tab of
             None \<Rightarrow> s
           | Some t \<Rightarrow>
               instance_sendStatusUpdate w
                 (Some \<lparr>tab_id = env_tabId k, tab_title = or_unknown (chrome_title t),
                        tab_url = or_unknown (chrome_url t)\<rparr>) s))"

text \<open>\<open>chrome.tabs.get\<close> answers asynchronously: the call is recorded, the callback runs
  as an event of its own.\<close>

definition tabs_get :: "int \<Rightarrow> ws_ref \<Rightarrow> state \<Rightarrow> state" where
  "tabs_get tab w s = s\<lparr>tab_queries := tab_queries s @ [(tab, w)]\<rparr>"

definition ws_onopen :: "ws_ref \<Rightarrow> state \<Rightarrow> state" where
  "ws_onopen w s =
     (case socket_at s w of
        None \<Rightarrow> s
      | Some k \<Rightarrow>
          (let s1 = s\<lparr>currentConnection :=
                       Some \<lparr>ws = w, sessionName = env_sessionName k, port = env_port k,
                             tabId = Some (env_tabId k)\<rparr>\<rparr>;
               s2 = startKeepaliveAlarm s1;
               s3 = startHeartbeat w s2;
               s4 = tabs_get (env_tabId k) w s3
           in resolve w s4))"

text \<open>\<open>currentConnection?.tabId || null\<close>: an empty slot, a \<open>null\<close> tab and the falsy
  number 0 all give \<open>null\<close>.\<close>

definition live_tab :: "state \<Rightarrow> int option" where
  "live_tab s =
     (case currentConnection s of
        None \<Rightarrow> None
      | Some c \<Rightarrow> (case tabId c of None \<Rightarrow> None | Some t \<Rightarrow> if t = 0 then None else Some t))"

text \<open>The call of the external dispatcher \<open>handleToolRequest(request, tab)\<close>: its
  arguments are recorded; its answer arrives as an event of its own (the \<open>await\<close>).\<close>

definition handleToolRequest_call :: "json \<Rightarrow> int option \<Rightarrow> state \<Rightarrow> state" where
  "handleToolRequest_call request tab s = s\<lparr>tool_requests := tool_requests s @ [(request, tab)]\<rparr>"

text \<open>\<open>ws.onmessage\<close>, the \<open>try\<close> block up to the \<open>await\<close>. The frame is given by the
  outcome of \<open>JSON.parse(event.data)\<close>: \<open>None\<close> when parsing throws. The log line
  interpolates \<open>request.type\<close>, which throws for a type that cannot be converted to a
  string; the dispatcher is called after it. This part of the handler does not use its
  socket.\<close>

definition onmessage_try :: "json option \<Rightarrow> state \<Rightarrow> js_error + state" where
  "onmessage_try data s =
     (case data of
        None \<Rightarrow> Inl SyntaxError
      | Some message \<Rightarrow>
          (case get_prop message ''type'' of
             Inl e \<Rightarrow> Inl e
           | Inr ty \<Rightarrow>
               if ty = Some (JStr ''pong'') then Inr (handlePong s)
               else if template_throws ty then Inl TypeError
               else Inr (handleToolRequest_call message (live_tab s)
                          (log DEBUG ''Tool request received: '' s))))"

definition ws_onmessage :: "json option \<Rightarrow> state \<Rightarrow> state" where
  "ws_onmessage data s =
     (case onmessage_try data s of
        Inr s' \<Rightarrow> s'
      | Inl e \<Rightarrow> log ERROR ''Error handling WebSocket message:'' s)"

text \<open>\<open>ws.onmessage\<close> after the \<open>await\<close>, for the socket \<open>w\<close> and the \<open>request\<close> of the
  handler. The outcome is \<open>Inl\<close> when the dispatcher's promise was rejected or its
  response cannot be serialised (\<open>JSON.stringify\<close> throws), and otherwise the serialised
  response. The send comes first; the log line after it interpolates \<open>request.id\<close>, and
  when that throws the \<open>catch\<close> logs an error although the response has been sent.\<close>

definition ws_onmessage_resume :: "ws_ref \<Rightarrow> json \<Rightarrow> js_error + json \<Rightarrow> state \<Rightarrow> state" where
  "ws_onmessage_resume w request outcome s =
     (case outcome of
        Inl e \<Rightarrow> log ERROR ''Error handling WebSocket message:'' s
      | Inr response \<Rightarrow>
          (case ws_send w response s of
             Inl e \<Rightarrow> log ERROR ''Error handling WebSocket message:'' s
           | Inr s' \<Rightarrow>
               (case get_prop request ''id'' of
                  Inl e \<Rightarrow> log ERROR ''Error handling WebSocket message:'' s'
                | Inr i \<Rightarrow>
                    if template_throws i then log ERROR ''Error handling WebSocket message:'' s'
                    else log TRACE ''Tool response sent: '' s')))"

definition ws_onerror :: "ws_ref \<Rightarrow> state \<Rightarrow> state" where
  "ws_onerror w s =
     reject w ''Failed to connect to MCP server'' (log ERROR ''WebSocket error:'' s)"

definition ws_onclose :: "state \<Rightarrow> state" where
  "ws_onclose s =
     notify_connection_closed
       (stopKeepaliveAlarm
         (stopHeartbeat
           ((log INFO ''WebSocket connection closed'' s)\<lparr>currentConnection := None\<rparr>)))"

subsection \<open>Status, tab update, disconnect\<close>

definition disconnected_status :: connection_status where
  "disconnected_status = \<lparr>connected = False, status_sessionName = None, status_tabId = None\<rparr>"

definition getConnectionStatus :: "state \<Rightarrow> connection_status" where
  "getConnectionStatus s =
     (case currentConnection s of
        None \<Rightarrow> disconnected_status
      | Some c \<Rightarrow>
          if ws_readyState s (ws c) \<noteq> OPEN then disconnected_status
          else \<lparr>connected = True, status_sessionName = Some (sessionName c),
                 status_tabId = tabId c\<rparr>)"

definition updateConnectedTab :: "int \<Rightarrow> state \<Rightarrow> state" where
  "updateConnectedTab tab s =
     (case currentConnection s of
        Some c \<Rightarrow> s\<lparr>currentConnection := Some (c\<lparr>tabId := Some tab\<rparr>)\<rparr>
      | None \<Rightarrow> s)"

definition disconnectSession :: "state \<Rightarrow> state" where
  "disconnectSession s =
     (case currentConnection s of
        Some c \<Rightarrow>
          (ws_close (ws c) (stopKeepaliveAlarm (stopHeartbeat s)))\<lparr>currentConnection := None\<rparr>
      | None \<Rightarrow> s)"

section \<open>The event loop of the background process\<close>

text \<open>
  Callbacks run to completion, one at a time. An event is a call of an exported function
  or of a \<open>WsClientInstance\<close> method, or a callback the host delivers: a socket event, the
  answer of the dispatcher or of \<open>chrome.tabs.get\<close>, a timer, the keepalive alarm. The host
  delivers a socket event only in a ready state that allows it (open: from CONNECTING;
  message: while OPEN; error and close: before CLOSED, and close makes the socket CLOSED),
  fires only live timers (a timeout once), and fires the alarm only while it is
  registered. A method of a \<open>WsClientInstance\<close> can be called once the connect promise
  has been resolved with the instance. The answer of \<open>chrome.tabs.get\<close> runs the callback
  of a query that was made; the answer of the dispatcher resumes the message handler of
  an existing socket. An event that cannot happen leaves the state as it is. The model
  allows more event orders than a browser produces (an error event that no close event
  follows, an answer of the dispatcher without a request), so what holds for all event
  sequences here holds for the browser's.
\<close>

datatype event =
    Connect session_name nat int
  | Disconnect
  | UpdateTab int
  | InstanceDisconnect ws_ref
  | InstanceSendStatus ws_ref "tab_info option"
  | WsOpen ws_ref
  | WsMessage ws_ref "json option"
  | WsError ws_ref
  | WsClose ws_ref
  | DispatcherDone ws_ref json "js_error + json"
  | TabsGetDone ws_ref "chrome_tab option"
  | TimerFire timer_id
  | AlarmFire
  | SetListener bool

definition run_callback :: "callback \<Rightarrow> state \<Rightarrow> state" where
  "run_callback cb s =
     (case cb of HeartbeatCycle w \<Rightarrow> heartbeat_cycle w s | PongTimeout w \<Rightarrow> pong_timeout w s)"

definition fire_timer :: "timer_id \<Rightarrow> state \<Rightarrow> state" where
  "fire_timer t s =
     (case timers s t of
        None \<Rightarrow> s
      | Some tm \<Rightarrow>
          run_callback (callback tm)
            (if repeating tm then s else s\<lparr>timers := (timers s)(t := None)\<rparr>))"

definition instance_held :: "state \<Rightarrow> ws_ref \<Rightarrow> bool" where
  "instance_held s w = (case socket_at s w of None \<Rightarrow> False | Some k \<Rightarrow> promise k = Resolved)"

fun step :: "event \<Rightarrow> state \<Rightarrow> state" where
  "step (Connect name p tab) s = connectToSession name p tab s"
| "step Disconnect s = disconnectSession s"
| "step (UpdateTab tab) s = updateConnectedTab tab s"
| "step (InstanceDisconnect w) s = (if instance_held s w then instance_disconnect w s else s)"
| "step (InstanceSendStatus w tab) s =
     (if instance_held s w then instance_sendStatusUpdate w tab s else s)"
| "step (WsOpen w) s =
     (if ws_readyState s w = CONNECTING
      then ws_onopen w (update_socket w (\<lambda>k. k\<lparr>readyState := OPEN\<rparr>) s) else s)"
| "step (WsMessage w data) s = (if ws_readyState s w = OPEN then ws_onmessage data s else s)"
| "step (WsError w) s = (if ws_readyState s w = CLOSED then s else ws_onerror w s)"
| "step (WsClose w) s =
     (if ws_readyState s w = CLOSED then s
      else ws_onclose (update_socket w (\<lambda>k. k\<lparr>readyState := CLOSED\<rparr>) s))"
| "step (DispatcherDone w request outcome) s =
     (case socket_at s w of
        None \<Rightarrow> s
      | Some k \<Rightarrow> ws_onmessage_resume w request outcome s)"
| "step (TabsGetDone w tab) s =
     (case socket_at s w of
        None \<Rightarrow> s
      | Some k \<Rightarrow> if (env_tabId k, w) \<in> set (tab_queries s) then tabs_get_callback w tab s else s)"
| "step (TimerFire t) s = fire_timer t s"
| "step AlarmFire s =
     (case alarms s KEEPALIVE_ALARM_NAME of None \<Rightarrow> s | Some period \<Rightarrow> handleKeepaliveAlarm s)"
| "step (SetListener b) s = s\<lparr>listener := b\<rparr>"

fun run :: "event list \<Rightarrow> state \<Rightarrow> state" where
  "run [] s = s"
| "run (e # es) s = run es (step e s)"

text \<open>An event sequence in which no transport opens.\<close>

fun is_open_event :: "event \<Rightarrow> bool" where
  "is_open_event (WsOpen w) = True"
| "is_open_event e = False"

definition no_open :: "event list \<Rightarrow> bool" where
  "no_open es = (filter is_open_event es = [])"

section \<open>UI side (useConnection.ts): the status reconciler\<close>

definition STATUS_POLL_INTERVAL_MS :: nat where
  "STATUS_POLL_INTERVAL_MS = 8000"

text \<open>The refs and the poll timer of one \<open>useConnection()\<close> instance that the polling
  code reads or writes, with the interval timers of the UI process.\<close>

record ui_state =
  connectionStatus :: connection_status
  statusPollTimer :: "timer_id option"
  ui_intervals :: "timer_id \<rightharpoonup> nat"
  ui_next_timer :: timer_id
  ui_logs :: "(log_level \<times> string) list"

definition ui_init :: ui_state where
  "ui_init = \<lparr> connectionStatus = disconnected_status, statusPollTimer = None,
     ui_intervals = Map.empty, ui_next_timer = 1, ui_logs = [] \<rparr>"

definition ui_log :: "log_level \<Rightarrow> string \<Rightarrow> ui_state \<Rightarrow> ui_state" where
  "ui_log lvl msg u = u\<lparr>ui_logs := ui_logs u @ [(lvl, msg)]\<rparr>"

definition stopStatusPolling :: "ui_state \<Rightarrow> ui_state" where
  "stopStatusPolling u =
     (case statusPollTimer u of
        Some t \<Rightarrow>
          ui_log DEBUG ''Status polling stopped''
            (u\<lparr>ui_intervals := (ui_intervals u)(t := None), statusPollTimer := None\<rparr>)
      | None \<Rightarrow> u)"

definition handleConnectionClosed :: "ui_state \<Rightarrow> ui_state" where
  "handleConnectionClosed u = stopStatusPolling (u\<lparr>connectionStatus := disconnected_status\<rparr>)"

definition startStatusPolling :: "ui_state \<Rightarrow> ui_state" where
  "startStatusPolling u =
     (case statusPollTimer u of
        Some t \<Rightarrow> u
      | None \<Rightarrow>
          ui_log DEBUG ''Status polling started''
            (u\<lparr>ui_intervals := (ui_intervals u)(ui_next_timer u \<mapsto> STATUS_POLL_INTERVAL_MS),
               statusPollTimer := Some (ui_next_timer u),
               ui_next_timer := Suc (ui_next_timer u)\<rparr>))"

text \<open>The body of the interval callback after its \<open>await\<close>: \<open>result\<close> is the answer to
  \<open>GET_CONNECTION_STATUS\<close>, or \<open>None\<close> when the request failed (the \<open>catch\<close> branch).\<close>

definition poll_callback :: "connection_status option \<Rightarrow> ui_state \<Rightarrow> ui_state" where
  "poll_callback result u =
     (case result of
        None \<Rightarrow> ui_log ERROR ''Status poll failed:'' u
      | Some status \<Rightarrow>
          if connected (connectionStatus u) \<and> \<not> connected status then
            handleConnectionClosed
              (ui_log WARN ''Connection state mismatch detected: UI=connected, background=disconnected'' u)
          else u\<lparr>connectionStatus := status\<rparr>)"

text \<open>Whether a poll interval is still scheduled.\<close>

definition polling :: "ui_state \<Rightarrow> bool" where
  "polling u = (case statusPollTimer u of None \<Rightarrow> False | Some t \<Rightarrow> ui_intervals u t \<noteq> None)"

section \<open>Invariants and relations used in the proofs\<close>

text \<open>The socket a timer callback closes over.\<close>

definition callback_ws :: "callback \<Rightarrow> ws_ref" where
  "callback_ws cb = (case cb of HeartbeatCycle w \<Rightarrow> w | PongTimeout w \<Rightarrow> w)"

text \<open>The module variable that holds the handle of a timer with the given callback.\<close>

definition handle_of :: "state \<Rightarrow> callback \<Rightarrow> timer_id option" where
  "handle_of s cb =
     (case cb of HeartbeatCycle w \<Rightarrow> heartbeatInterval s | PongTimeout w \<Rightarrow> heartbeatTimeout s)"

text \<open>The timer the module creates for a callback: \<open>setInterval\<close> with the heartbeat period
  for the cycle, \<open>setTimeout\<close> with the pong timeout for the timeout.\<close>

definition timer_for :: "callback \<Rightarrow> timer" where
  "timer_for cb =
     (case cb of
        HeartbeatCycle w \<Rightarrow>
          \<lparr>repeating = True, delay_ms = HEARTBEAT_INTERVAL_MS, callback = cb\<rparr>
      | PongTimeout w \<Rightarrow>
          \<lparr>repeating = False, delay_ms = HEARTBEAT_TIMEOUT_MS, callback = cb\<rparr>)"

text \<open>The slot is empty or holds a connection on socket \<open>w\<close>.\<close>

definition slot_on :: "state \<Rightarrow> ws_ref \<Rightarrow> bool" where
  "slot_on s w = (case currentConnection s of None \<Rightarrow> True | Some c \<Rightarrow> ws c = w)"

text \<open>The invariant of the timer table.\<close>

definition timers_tracked :: "state \<Rightarrow> bool" where
  "timers_tracked s =
     (\<forall>t tm. timers s t = Some tm \<longrightarrow>
        t < next_timer s \<and> handle_of s (callback tm) = Some t \<and>
        tm = timer_for (callback tm) \<and> slot_on s (callback_ws (callback tm)))"

text \<open>A transition from \<open>s\<close> to \<open>s'\<close> is quiet when it opens no socket, installs no
  connection and registers no keepalive alarm.\<close>

definition quiet :: "state \<Rightarrow> state \<Rightarrow> bool" where
  "quiet s s' =
     ((\<forall>w. ws_readyState s' w = OPEN \<longrightarrow> ws_readyState s w = OPEN) \<and>
      (\<forall>c'. currentConnection s' = Some c' \<longrightarrow>
           (\<exists>c. currentConnection s = Some c \<and> ws c = ws c')) \<and>
      (alarms s KEEPALIVE_ALARM_NAME = None \<longrightarrow> alarms s' KEEPALIVE_ALARM_NAME = None))"

text \<open>The slot holds a connection whose socket is OPEN.\<close>

definition live :: "state \<Rightarrow> bool" where
  "live s = (case currentConnection s of None \<Rightarrow> False | Some c \<Rightarrow> ws_readyState s (ws c) = OPEN)"

section \<open>Verification\<close>

subsection \<open>Unfolding the model on concrete inputs\<close>

lemmas host_defs = log_def throw_uncaught_def socket_at_def ws_readyState_def update_socket_def
  alloc_socket_def new_WebSocket_def ws_send_def ws_close_def resolve_def reject_def setInterval_def
  setTimeout_def clearInterval_def clearTimeout_def runtime_sendMessage_def alarms_create_def
  alarms_clear_def

lemmas module_defs = startKeepaliveAlarm_def stopKeepaliveAlarm_def stopHeartbeat_def
  pong_timeout_def heartbeat_cycle_def startHeartbeat_def handlePong_def
  notify_connection_closed_def handleKeepaliveAlarm_def connectToSession_def
  instance_disconnect_def instance_isConnected_def instance_getSessionName_def
  instance_sendStatusUpdate_def tabs_get_callback_def tabs_get_def ws_onopen_def live_tab_def
  handleToolRequest_call_def onmessage_try_def ws_onmessage_def ws_onmessage_resume_def
  ws_onerror_def ws_onclose_def disconnected_status_def getConnectionStatus_def
  updateConnectedTab_def disconnectSession_def run_callback_def fire_timer_def
  ready_state_code_def
  instance_held_def

lemmas const_defs = KEEPALIVE_ALARM_NAME_def KEEPALIVE_INTERVAL_SECONDS_def
  HEARTBEAT_INTERVAL_MS_def HEARTBEAT_TIMEOUT_MS_def ping_frame_def status_frame_def
  or_unknown_def template_throws_def

subsection \<open>Every live timer is tracked by its handle\<close>

text \<open>
  In every state the module reaches, each live timer is the one its handle variable
  names (\<open>heartbeatInterval\<close> for the cycle, \<open>heartbeatTimeout\<close> for the pong timeout), has
  the configured delay, and belongs to the socket of the connection in the slot, if there
  is one. So \<open>stopHeartbeat\<close> leaves no timer behind, and a pong timeout that fires closes
  the socket of the current connection.
\<close>

lemma callback_ws_simps [simp]:
  "callback_ws (HeartbeatCycle w) = w" "callback_ws (PongTimeout w) = w"
  by (simp_all add: callback_ws_def)

lemma handle_of_simps [simp]:
  "handle_of s (HeartbeatCycle w) = heartbeatInterval s"
  "handle_of s (PongTimeout w) = heartbeatTimeout s"
  by (simp_all add: handle_of_def)

lemma timer_for_simps [simp]:
  "timer_for (HeartbeatCycle w) =
     \<lparr>repeating = True, delay_ms = HEARTBEAT_INTERVAL_MS, callback = HeartbeatCycle w\<rparr>"
  "timer_for (PongTimeout w) =
     \<lparr>repeating = False, delay_ms = HEARTBEAT_TIMEOUT_MS, callback = PongTimeout w\<rparr>"
  by (simp_all add: timer_for_def)

lemma slot_on_simps:
  "currentConnection s = None \<Longrightarrow> slot_on s w"
  "currentConnection s = Some c \<Longrightarrow> slot_on s w = (ws c = w)"
  by (simp_all add: slot_on_def)

lemma trackedD:
  "timers_tracked s \<Longrightarrow> timers s t = Some tm \<Longrightarrow>
     t < next_timer s \<and> handle_of s (callback tm) = Some t \<and>
     tm = timer_for (callback tm) \<and> slot_on s (callback_ws (callback tm))"
  unfolding timers_tracked_def by blast

lemma trackedI:
  "(\<And>t tm. timers s t = Some tm \<Longrightarrow>
      t < next_timer s \<and> handle_of s (callback tm) = Some t \<and>
      tm = timer_for (callback tm) \<and> slot_on s (callback_ws (callback tm))) \<Longrightarrow>
   timers_tracked s"
  unfolding timers_tracked_def by blast

lemma tracked_init: "timers_tracked init"
  by (simp add: timers_tracked_def init_def)

lemma tracked_no_timers: "timers s = Map.empty \<Longrightarrow> timers_tracked s"
  by (simp add: timers_tracked_def)

lemma tracked_cong:
  assumes "timers_tracked s" "timers s' = timers s" "next_timer s' = next_timer s"
    "heartbeatInterval s' = heartbeatInterval s" "heartbeatTimeout s' = heartbeatTimeout s"
    "currentConnection s' = None \<or> map_option ws (currentConnection s') = map_option ws (currentConnection s)"
  shows "timers_tracked s'"
proof (rule trackedI)
  fix t tm
  assume "timers s' t = Some tm"
  with assms have "timers s t = Some tm" by simp
  from trackedD [OF assms(1) this] assms(3-6)
  show "t < next_timer s' \<and> handle_of s' (callback tm) = Some t \<and>
     tm = timer_for (callback tm) \<and> slot_on s' (callback_ws (callback tm))"
    by (cases "callback tm"; cases "currentConnection s"; cases "currentConnection s'")
       (auto simp: slot_on_simps)
qed

lemma stopHeartbeat_fields:
  "heartbeatInterval (stopHeartbeat s) = None"
  "heartbeatTimeout (stopHeartbeat s) = None"
  "next_timer (stopHeartbeat s) = next_timer s"
  "currentConnection (stopHeartbeat s) = currentConnection s"
  "sockets (stopHeartbeat s) = sockets s"
  "alarms (stopHeartbeat s) = alarms s"
  "runtime_messages (stopHeartbeat s) = runtime_messages s"
  "uncaught (stopHeartbeat s) = uncaught s"
  "listener (stopHeartbeat s) = listener s"
  "logs (stopHeartbeat s) = logs s"
  "tool_requests (stopHeartbeat s) = tool_requests s"
  "tab_queries (stopHeartbeat s) = tab_queries s"
  by (simp_all add: stopHeartbeat_def clearInterval_def clearTimeout_def Let_def split: option.split)

lemma stopHeartbeat_timers:
  assumes "timers_tracked s"
  shows "timers (stopHeartbeat s) = Map.empty"
proof (rule ext)
  fix t
  show "timers (stopHeartbeat s) t = None"
  proof (cases "timers s t")
    case None
    then show ?thesis
      by (simp add: stopHeartbeat_def clearInterval_def clearTimeout_def Let_def split: option.split)
  next
    case (Some tm)
    from trackedD [OF assms Some]
    have "heartbeatInterval s = Some t \<or> heartbeatTimeout s = Some t"
      by (cases "callback tm") auto
    then show ?thesis
      by (auto simp add: stopHeartbeat_def clearInterval_def clearTimeout_def Let_def split: option.split)
  qed
qed

lemma tracked_clear_pong:
  assumes "timers_tracked s"
  shows "timers_tracked (case heartbeatTimeout s of
            Some t \<Rightarrow> (clearTimeout t s)\<lparr>heartbeatTimeout := None\<rparr> | None \<Rightarrow> s)"
proof (cases "heartbeatTimeout s")
  case None
  with assms show ?thesis by simp
next
  case (Some t0)
  show ?thesis
  proof (rule trackedI)
    fix t tm
    assume "timers (case heartbeatTimeout s of
            Some t \<Rightarrow> (clearTimeout t s)\<lparr>heartbeatTimeout := None\<rparr> | None \<Rightarrow> s) t = Some tm"
    with Some have live: "timers s t = Some tm" and neq: "t \<noteq> t0"
      by (auto simp: clearTimeout_def split: if_splits)
    from trackedD [OF assms live] neq Some
    show "t < next_timer (case heartbeatTimeout s of
            Some t \<Rightarrow> (clearTimeout t s)\<lparr>heartbeatTimeout := None\<rparr> | None \<Rightarrow> s) \<and>
        handle_of (case heartbeatTimeout s of
            Some t \<Rightarrow> (clearTimeout t s)\<lparr>heartbeatTimeout := None\<rparr> | None \<Rightarrow> s) (callback tm) = Some t \<and>
        tm = timer_for (callback tm) \<and>
        slot_on (case heartbeatTimeout s of
            Some t \<Rightarrow> (clearTimeout t s)\<lparr>heartbeatTimeout := None\<rparr> | None \<Rightarrow> s) (callback_ws (callback tm))"
      by (cases "callback tm"; cases "currentConnection s")
         (auto simp: clearTimeout_def slot_on_simps)
  qed
qed

lemma tracked_log: "timers_tracked s \<Longrightarrow> timers_tracked (log lvl msg s)"
  by (rule tracked_cong [where s = s]) (simp_all add: log_def)

lemma tracked_handlePong: "timers_tracked s \<Longrightarrow> timers_tracked (handlePong s)"
  unfolding handlePong_def Let_def by (intro tracked_log tracked_clear_pong)

lemma tracked_update_socket: "timers_tracked s \<Longrightarrow> timers_tracked (update_socket w f s)"
  by (rule tracked_cong [where s = s]) (simp_all add: update_socket_def split: option.split)

lemma tracked_ws_close: "timers_tracked s \<Longrightarrow> timers_tracked (ws_close w s)"
  by (simp add: ws_close_def tracked_update_socket split: ready_state.split)

lemma tracked_throw: "timers_tracked s \<Longrightarrow> timers_tracked (throw_uncaught e s)"
  by (rule tracked_cong [where s = s]) (simp_all add: throw_uncaught_def)

lemma tracked_ws_send: "ws_send w d s = Inr s' \<Longrightarrow> timers_tracked s \<Longrightarrow> timers_tracked s'"
  by (auto simp add: ws_send_def tracked_update_socket split: ready_state.splits)

lemma tracked_alarm_stop: "timers_tracked s \<Longrightarrow> timers_tracked (stopKeepaliveAlarm s)"
  by (rule tracked_cong [where s = s])
     (simp_all add: stopKeepaliveAlarm_def alarms_clear_def log_def)

lemma tracked_notify: "timers_tracked s \<Longrightarrow> timers_tracked (notify_connection_closed s)"
  by (rule tracked_cong [where s = s])
     (simp_all add: notify_connection_closed_def runtime_sendMessage_def)

lemma tracked_alloc_socket: "timers_tracked s \<Longrightarrow> timers_tracked (alloc_socket n p tab s)"
  by (rule tracked_cong [where s = s]) (simp_all add: alloc_socket_def)

lemma tracked_failed_connect:
  "timers_tracked s \<Longrightarrow> timers_tracked (s\<lparr>failed_connects := failed_connects s @ [e]\<rparr>)"
  by (rule tracked_cong [where s = s]) simp_all

lemma tracked_slot_None: "timers_tracked s \<Longrightarrow> timers_tracked (s\<lparr>currentConnection := None\<rparr>)"
  by (rule tracked_cong [where s = s]) simp_all

lemma tracked_stopHeartbeat: "timers_tracked s \<Longrightarrow> timers_tracked (stopHeartbeat s)"
  by (rule tracked_no_timers) (rule stopHeartbeat_timers)

lemma tracked_pong_timeout: "timers_tracked s \<Longrightarrow> timers_tracked (pong_timeout w s)"
  by (simp add: pong_timeout_def tracked_ws_close tracked_log)

lemma tracked_setTimeout:
  assumes "timers_tracked s" "heartbeatTimeout s = None" "slot_on s w"
  shows "timers_tracked (case setTimeout (PongTimeout w) HEARTBEAT_TIMEOUT_MS s of
                           (t, s4) \<Rightarrow> s4\<lparr>heartbeatTimeout := Some t\<rparr>)"
proof (rule trackedI)
  fix t tm
  let ?s' = "case setTimeout (PongTimeout w) HEARTBEAT_TIMEOUT_MS s of
                           (t, s4) \<Rightarrow> s4\<lparr>heartbeatTimeout := Some t\<rparr>"
  assume live: "timers ?s' t = Some tm"
  show "t < next_timer ?s' \<and> handle_of ?s' (callback tm) = Some t \<and>
        tm = timer_for (callback tm) \<and> slot_on ?s' (callback_ws (callback tm))"
  proof (cases "t = next_timer s")
    case True
    with live assms(3) show ?thesis
      by (cases "currentConnection s") (auto simp: setTimeout_def slot_on_simps)
  next
    case False
    with live have "timers s t = Some tm" by (simp add: setTimeout_def)
    from trackedD [OF assms(1) this] assms(2) False show ?thesis
      by (cases "callback tm"; cases "currentConnection s")
         (auto simp: setTimeout_def slot_on_simps)
  qed
qed

lemma ws_send_fields:
  assumes "ws_send w d s = Inr s'"
  shows "timers s' = timers s" "next_timer s' = next_timer s"
    "heartbeatInterval s' = heartbeatInterval s" "heartbeatTimeout s' = heartbeatTimeout s"
    "currentConnection s' = currentConnection s" "alarms s' = alarms s"
    "runtime_messages s' = runtime_messages s" "uncaught s' = uncaught s"
    "tool_requests s' = tool_requests s" "logs s' = logs s"
  using assms
  by (auto simp add: ws_send_def update_socket_def split: ready_state.splits option.splits)

lemma tracked_remove:
  assumes "timers_tracked s"
  shows "timers_tracked (s\<lparr>timers := (timers s)(t := None)\<rparr>)"
proof (rule trackedI)
  fix t' tm
  assume "timers (s\<lparr>timers := (timers s)(t := None)\<rparr>) t' = Some tm"
  then have "timers s t' = Some tm" by (simp split: if_splits)
  from trackedD [OF assms this]
  show "t' < next_timer (s\<lparr>timers := (timers s)(t := None)\<rparr>) \<and>
        handle_of (s\<lparr>timers := (timers s)(t := None)\<rparr>) (callback tm) = Some t' \<and>
        tm = timer_for (callback tm) \<and>
        slot_on (s\<lparr>timers := (timers s)(t := None)\<rparr>) (callback_ws (callback tm))"
    by (cases "callback tm"; cases "currentConnection s") (auto simp: slot_on_simps)
qed

lemma clear_pong_fields:
  "heartbeatTimeout (case heartbeatTimeout s of
      Some t \<Rightarrow> (clearTimeout t s)\<lparr>heartbeatTimeout := None\<rparr> | None \<Rightarrow> s) = None"
  "currentConnection (case heartbeatTimeout s of
      Some t \<Rightarrow> (clearTimeout t s)\<lparr>heartbeatTimeout := None\<rparr> | None \<Rightarrow> s) = currentConnection s"
  by (simp_all add: clearTimeout_def split: option.split)

lemma tracked_heartbeat_cycle:
  assumes tr: "timers_tracked s" and slot: "slot_on s w"
  shows "timers_tracked (heartbeat_cycle w s)"
proof (cases "ws_readyState s w = OPEN")
  case False
  with tr show ?thesis by (simp add: heartbeat_cycle_def)
next
  case True
  define s1 where "s1 = (case heartbeatTimeout s of
      Some t \<Rightarrow> (clearTimeout t s)\<lparr>heartbeatTimeout := None\<rparr> | None \<Rightarrow> s)"
  define s2 where "s2 = log TRACE ''Sending heartbeat ping'' s1"
  have tr2: "timers_tracked s2"
    unfolding s2_def s1_def by (intro tracked_log tracked_clear_pong tr)
  have h2: "heartbeatTimeout s2 = None" and c2: "currentConnection s2 = currentConnection s"
    unfolding s2_def s1_def by (simp_all add: log_def clear_pong_fields)
  have eq: "heartbeat_cycle w s =
      (case ws_send w ping_frame s2 of
         Inl e \<Rightarrow> throw_uncaught e s2
       | Inr s3 \<Rightarrow>
           (case setTimeout (PongTimeout w) HEARTBEAT_TIMEOUT_MS s3 of
              (t, s4) \<Rightarrow> s4\<lparr>heartbeatTimeout := Some t\<rparr>))"
    using True unfolding s2_def s1_def heartbeat_cycle_def Let_def by simp
  show ?thesis
  proof (cases "ws_send w ping_frame s2")
    case (Inl e)
    with tr2 show ?thesis by (simp add: eq tracked_throw)
  next
    case (Inr s3)
    have "timers_tracked s3" by (rule tracked_ws_send [OF Inr tr2])
    moreover have "heartbeatTimeout s3 = None" using ws_send_fields(4) [OF Inr] h2 by simp
    moreover have "slot_on s3 w"
      using ws_send_fields(5) [OF Inr] c2 slot by (simp add: slot_on_def)
    ultimately show ?thesis unfolding eq Inr by (simp add: tracked_setTimeout del: split_paired_All)
  qed
qed

lemma tracked_fire_timer:
  assumes tr: "timers_tracked s"
  shows "timers_tracked (fire_timer t s)"
proof (cases "timers s t")
  case None
  with tr show ?thesis by (simp add: fire_timer_def)
next
  case (Some tm)
  note d = trackedD [OF tr Some]
  show ?thesis
  proof (cases "callback tm")
    case (HeartbeatCycle w)
    with d have "repeating tm" "slot_on s w"
      by (cases tm; simp)+
    with Some HeartbeatCycle tr show ?thesis
      by (simp add: fire_timer_def run_callback_def tracked_heartbeat_cycle)
  next
    case (PongTimeout w)
    with d have "\<not> repeating tm" by (cases tm; simp)
    with Some PongTimeout tr show ?thesis
      by (simp add: fire_timer_def run_callback_def tracked_pong_timeout tracked_remove)
  qed
qed

lemma tracked_teardown:
  assumes "timers_tracked s"
  shows "timers_tracked ((ws_close w (stopKeepaliveAlarm (stopHeartbeat s)))\<lparr>currentConnection := None\<rparr>)"
  by (intro tracked_slot_None tracked_ws_close tracked_alarm_stop tracked_stopHeartbeat assms)

lemma tracked_create:
  "timers_tracked s1 \<Longrightarrow>
   timers_tracked (case new_WebSocket n p tab s1 of
                     Inl e \<Rightarrow> s1\<lparr>failed_connects := failed_connects s1 @ [e]\<rparr>
                   | Inr s2 \<Rightarrow> s2)"
  by (simp add: new_WebSocket_def tracked_alloc_socket tracked_failed_connect)

lemma tracked_connect:
  assumes "timers_tracked s"
  shows "timers_tracked (connectToSession n p tab s)"
proof (cases "currentConnection s")
  case None
  with assms show ?thesis by (simp add: connectToSession_def Let_def tracked_create)
next
  case (Some c)
  then show ?thesis
    by (simp add: connectToSession_def Let_def tracked_create [OF tracked_teardown [OF assms]])
qed

lemma tracked_disconnect: "timers_tracked s \<Longrightarrow> timers_tracked (disconnectSession s)"
  by (cases "currentConnection s") (simp_all add: disconnectSession_def tracked_teardown)

lemma tracked_updateTab: "timers_tracked s \<Longrightarrow> timers_tracked (updateConnectedTab tab s)"
  by (rule tracked_cong [where s = s]) (simp_all add: updateConnectedTab_def split: option.split)

lemma tracked_instance_disconnect:
  "timers_tracked s \<Longrightarrow> timers_tracked (instance_disconnect w s)"
  unfolding instance_disconnect_def by (intro tracked_slot_None tracked_ws_close)

lemma tracked_sendStatus:
  "timers_tracked s \<Longrightarrow> timers_tracked (instance_sendStatusUpdate w tab s)"
  by (auto simp: instance_sendStatusUpdate_def tracked_throw split: sum.split
        intro: tracked_ws_send)

lemma tracked_tabs_get_callback:
  "timers_tracked s \<Longrightarrow> timers_tracked (tabs_get_callback w tab s)"
  by (simp add: tabs_get_callback_def tracked_sendStatus split: option.split)

lemma tracked_tabs_get: "timers_tracked s \<Longrightarrow> timers_tracked (tabs_get tab w s)"
  by (rule tracked_cong [where s = s]) (simp_all add: tabs_get_def)

lemma tracked_onopen:
  assumes "timers_tracked s"
  shows "timers_tracked (ws_onopen w s)"
proof (cases "socket_at s w")
  case None
  with assms show ?thesis by (simp add: ws_onopen_def)
next
  case (Some k)
  define c where "c = \<lparr>ws = w, sessionName = env_sessionName k, port = env_port k,
                             tabId = Some (env_tabId k)\<rparr>"
  define s2 where "s2 = startKeepaliveAlarm (s\<lparr>currentConnection := Some c\<rparr>)"
  have cur: "currentConnection s2 = Some c"
    by (simp add: s2_def startKeepaliveAlarm_def alarms_create_def log_def)
  have "timers (stopHeartbeat s2) = timers (stopHeartbeat s)"
    by (simp add: s2_def stopHeartbeat_def startKeepaliveAlarm_def alarms_create_def log_def
          clearInterval_def clearTimeout_def Let_def split: option.split)
  then have e: "timers (stopHeartbeat s2) = Map.empty" by (simp add: stopHeartbeat_timers [OF assms])
  have "timers_tracked (startHeartbeat w s2)"
  proof (rule trackedI)
    fix t tm
    assume live: "timers (startHeartbeat w s2) t = Some tm"
    from live e have "t = next_timer s2 \<and> tm = timer_for (HeartbeatCycle w)"
      by (simp add: startHeartbeat_def Let_def setInterval_def log_def stopHeartbeat_fields
               split: if_splits)
    with cur show "t < next_timer (startHeartbeat w s2) \<and>
        handle_of (startHeartbeat w s2) (callback tm) = Some t \<and>
        tm = timer_for (callback tm) \<and> slot_on (startHeartbeat w s2) (callback_ws (callback tm))"
      by (simp add: startHeartbeat_def Let_def setInterval_def log_def stopHeartbeat_fields
            slot_on_def c_def)
  qed
  then have "timers_tracked (resolve w (tabs_get (env_tabId k) w (startHeartbeat w s2)))"
    unfolding resolve_def
    by (intro tracked_update_socket tracked_tabs_get)
  with Some show ?thesis by (simp add: ws_onopen_def Let_def s2_def c_def)
qed

lemma tracked_onmessage: "timers_tracked s \<Longrightarrow> timers_tracked (ws_onmessage data s)"
proof -
  assume tr: "timers_tracked s"
  have "timers_tracked (handleToolRequest_call m tab (log DEBUG ''Tool request received: '' s))"
    for m tab
    by (rule tracked_cong [where s = s]) (simp_all add: tr handleToolRequest_call_def log_def)
  with tr show ?thesis
    by (auto simp: ws_onmessage_def onmessage_try_def tracked_log tracked_handlePong
          split: option.splits sum.splits if_splits)
qed

lemma tracked_resume:
  "timers_tracked s \<Longrightarrow> timers_tracked (ws_onmessage_resume w request outcome s)"
  by (auto simp: ws_onmessage_resume_def tracked_log split: sum.splits
        intro!: tracked_log intro: tracked_ws_send)

lemma tracked_onerror: "timers_tracked s \<Longrightarrow> timers_tracked (ws_onerror w s)"
  unfolding ws_onerror_def reject_def by (intro tracked_update_socket tracked_log)

lemma tracked_onclose: "timers_tracked s \<Longrightarrow> timers_tracked (ws_onclose s)"
  unfolding ws_onclose_def
  by (intro tracked_notify tracked_alarm_stop tracked_stopHeartbeat tracked_slot_None tracked_log)

lemma tracked_keepalive: "timers_tracked s \<Longrightarrow> timers_tracked (handleKeepaliveAlarm s)"
  unfolding handleKeepaliveAlarm_def Let_def
  by (auto split: option.split
        intro!: tracked_notify tracked_alarm_stop tracked_stopHeartbeat tracked_slot_None tracked_log)

lemma tracked_step: "timers_tracked s \<Longrightarrow> timers_tracked (step e s)"
proof (cases e)
  case (SetListener b)
  assume "timers_tracked s"
  then have "timers_tracked (s\<lparr>listener := b\<rparr>)" by (rule tracked_cong) simp_all
  with SetListener show ?thesis by simp
qed (auto simp: tracked_connect tracked_disconnect tracked_updateTab tracked_instance_disconnect
       tracked_sendStatus tracked_tabs_get_callback tracked_onopen tracked_onmessage
       tracked_resume tracked_onerror tracked_onclose tracked_keepalive tracked_fire_timer
       tracked_update_socket split: option.split)

lemma tracked_run: "timers_tracked s \<Longrightarrow> timers_tracked (run es s)"
  by (induction es arbitrary: s) (simp_all add: tracked_step)

lemma tracked_reachable: "timers_tracked (run es init)"
  by (rule tracked_run [OF tracked_init])

subsection \<open>Sockets and ready states\<close>

lemma socket_at_update:
  "socket_at (update_socket w' f s) w =
     (if w = w' then map_option f (socket_at s w) else socket_at s w)"
  by (simp add: update_socket_def socket_at_def split: option.split)

lemma socket_at_new:
  "socket_at (alloc_socket n p tab s) w =
     (if w = length (sockets s)
      then Some \<lparr> readyState = CONNECTING, url_port = p, sent = [], env_sessionName = n,
           env_port = p, env_tabId = tab, promise = Pending \<rparr>
      else socket_at s w)"
  by (simp add: alloc_socket_def socket_at_def nth_append)

lemma socket_at_frame: "sockets s' = sockets s \<Longrightarrow> socket_at s' w = socket_at s w"
  by (simp add: socket_at_def)

lemmas raw_socket = ws_readyState_def update_socket_def socket_at_def

lemma rs_frame: "sockets s' = sockets s \<Longrightarrow> ws_readyState s' w = ws_readyState s w"
  by (simp add: raw_socket)

lemma rs_in_range: "ws_readyState s w \<noteq> CLOSED \<Longrightarrow> w < length (sockets s)"
  by (simp add: raw_socket split: if_splits)

lemma rs_set:
  "ws_readyState (update_socket w' (\<lambda>k. k\<lparr>readyState := r\<rparr>) s) w =
     (if w = w' \<and> w < length (sockets s) then r else ws_readyState s w)"
  by (simp add: raw_socket)

lemma rs_keep:
  "(\<And>k. readyState (f k) = readyState k) \<Longrightarrow>
   ws_readyState (update_socket w' f s) w = ws_readyState s w"
  by (simp add: raw_socket nth_list_update)

lemma rs_close:
  "ws_readyState (ws_close w' s) w =
     (if w = w' \<and> (ws_readyState s w = OPEN \<or> ws_readyState s w = CONNECTING) then CLOSING
      else ws_readyState s w)"
  using rs_in_range [of s w']
  by (cases "ws_readyState s w'") (auto simp add: ws_close_def rs_set)

lemma rs_send: "ws_send w' d s = Inr s' \<Longrightarrow> ws_readyState s' w = ws_readyState s w"
  by (cases "ws_readyState s w'") (auto simp add: ws_send_def rs_keep)

lemma rs_new:
  "ws_readyState (alloc_socket n p tab s) w =
     (if w = length (sockets s) then CONNECTING else ws_readyState s w)"
  by (simp add: ws_readyState_def socket_at_def alloc_socket_def nth_append)

subsection \<open>Steps that open nothing\<close>

text \<open>
  Every event other than the open event of a socket is quiet: it makes no socket OPEN,
  puts no connection into the slot (it may change the tab of the one that is there) and
  registers no alarm.
\<close>

lemma quiet_refl: "quiet s s"
  by (simp add: quiet_def)

lemma quiet_trans:
  assumes "quiet s s'" "quiet s' s''"
  shows "quiet s s''"
proof -
  have a: "ws_readyState s w = OPEN" if "ws_readyState s'' w = OPEN" for w
    using assms that unfolding quiet_def by blast
  have b: "\<exists>c. currentConnection s = Some c \<and> ws c = ws c''"
    if "currentConnection s'' = Some c''" for c''
  proof -
    from assms(2) that obtain c' where "currentConnection s' = Some c'" "ws c' = ws c''"
      unfolding quiet_def by blast
    with assms(1) show ?thesis unfolding quiet_def by fastforce
  qed
  have c: "alarms s'' KEEPALIVE_ALARM_NAME = None" if "alarms s KEEPALIVE_ALARM_NAME = None"
    using assms that unfolding quiet_def by blast
  from a b c show ?thesis unfolding quiet_def by blast
qed

lemma quiet_frame:
  assumes "sockets s' = sockets s"
    "currentConnection s' = None \<or> map_option ws (currentConnection s') = map_option ws (currentConnection s)"
    "alarms s' KEEPALIVE_ALARM_NAME = None \<or> alarms s' = alarms s"
  shows "quiet s s'"
proof -
  have "\<exists>c. currentConnection s = Some c \<and> ws c = ws c'"
    if "currentConnection s' = Some c'" for c'
    using assms(2) that by (cases "currentConnection s") simp_all
  moreover have "alarms s' KEEPALIVE_ALARM_NAME = None" if "alarms s KEEPALIVE_ALARM_NAME = None"
    using assms(3) that by (elim disjE) simp_all
  ultimately show ?thesis
    unfolding quiet_def using rs_frame [OF assms(1)] by simp
qed

lemma update_socket_fields:
  "currentConnection (update_socket w f s) = currentConnection s"
  "alarms (update_socket w f s) = alarms s"
  "timers (update_socket w f s) = timers s"
  "heartbeatInterval (update_socket w f s) = heartbeatInterval s"
  "heartbeatTimeout (update_socket w f s) = heartbeatTimeout s"
  "runtime_messages (update_socket w f s) = runtime_messages s"
  "uncaught (update_socket w f s) = uncaught s"
  "tool_requests (update_socket w f s) = tool_requests s"
  "tab_queries (update_socket w f s) = tab_queries s"
  "listener (update_socket w f s) = listener s"
  "logs (update_socket w f s) = logs s"
  "next_timer (update_socket w f s) = next_timer s"
  by (simp_all add: update_socket_def socket_at_def)

lemma ws_close_fields:
  "currentConnection (ws_close w s) = currentConnection s"
  "alarms (ws_close w s) = alarms s"
  "timers (ws_close w s) = timers s"
  "heartbeatInterval (ws_close w s) = heartbeatInterval s"
  "heartbeatTimeout (ws_close w s) = heartbeatTimeout s"
  "runtime_messages (ws_close w s) = runtime_messages s"
  "uncaught (ws_close w s) = uncaught s"
  "tool_requests (ws_close w s) = tool_requests s"
  "tab_queries (ws_close w s) = tab_queries s"
  "listener (ws_close w s) = listener s"
  "logs (ws_close w s) = logs s"
  "next_timer (ws_close w s) = next_timer s"
  by (simp_all add: ws_close_def update_socket_fields split: ready_state.split)

lemma quiet_set_state:
  "r \<noteq> OPEN \<Longrightarrow> quiet s (update_socket w (\<lambda>k. k\<lparr>readyState := r\<rparr>) s)"
  unfolding quiet_def by (simp add: rs_set update_socket_fields)

lemma quiet_keep:
  "(\<And>k. readyState (f k) = readyState k) \<Longrightarrow> quiet s (update_socket w f s)"
  unfolding quiet_def by (simp add: rs_keep update_socket_fields)

lemma quiet_close: "quiet s (ws_close w s)"
  unfolding quiet_def by (simp add: rs_close ws_close_fields)

lemma quiet_send: "ws_send w d s = Inr s' \<Longrightarrow> quiet s s'"
  unfolding quiet_def by (simp add: rs_send ws_send_fields)

lemma quiet_new: "quiet s (alloc_socket n p tab s)"
  unfolding quiet_def by (simp add: rs_new) (simp add: alloc_socket_def)

lemma quiet_failed_connect: "quiet s (s\<lparr>failed_connects := failed_connects s @ [e]\<rparr>)"
  by (rule quiet_frame) simp_all

lemma quiet_stopHeartbeat: "quiet s (stopHeartbeat s)"
  by (rule quiet_frame) (simp_all add: stopHeartbeat_fields)

lemma quiet_log: "quiet s (log l m s)"
  by (rule quiet_frame) (simp_all add: log_def)

lemma quiet_throw: "quiet s (throw_uncaught e s)"
  by (rule quiet_frame) (simp_all add: throw_uncaught_def)

lemma quiet_alarm_stop: "quiet s (stopKeepaliveAlarm s)"
  by (rule quiet_frame) (simp_all add: stopKeepaliveAlarm_def alarms_clear_def log_def)

lemma quiet_notify: "quiet s (notify_connection_closed s)"
  by (rule quiet_frame) (simp_all add: notify_connection_closed_def runtime_sendMessage_def)

lemma quiet_slot_None: "quiet s (s\<lparr>currentConnection := None\<rparr>)"
  by (rule quiet_frame) simp_all

lemma quiet_handlePong: "quiet s (handlePong s)"
  by (rule quiet_frame) (simp_all add: handlePong_def clearTimeout_def log_def split: option.split)

lemmas quiet_chain = quiet_trans [rotated]

lemma quiet_teardown:
  "quiet s ((ws_close w (stopKeepaliveAlarm (stopHeartbeat s)))\<lparr>currentConnection := None\<rparr>)"
  by (rule quiet_chain [OF quiet_slot_None], rule quiet_chain [OF quiet_close],
      rule quiet_chain [OF quiet_alarm_stop], rule quiet_stopHeartbeat)

lemma quiet_create:
  "quiet s1 (case new_WebSocket n p tab s1 of
               Inl e \<Rightarrow> s1\<lparr>failed_connects := failed_connects s1 @ [e]\<rparr>
             | Inr s2 \<Rightarrow> s2)"
  by (simp add: new_WebSocket_def quiet_new quiet_failed_connect)

lemma quiet_connect: "quiet s (connectToSession n p tab s)"
proof (cases "currentConnection s")
  case None
  then show ?thesis by (simp add: connectToSession_def Let_def quiet_create)
next
  case (Some c)
  then show ?thesis
    by (simp add: connectToSession_def Let_def quiet_trans [OF quiet_teardown quiet_create])
qed

lemma quiet_disconnect: "quiet s (disconnectSession s)"
  by (cases "currentConnection s") (simp_all add: disconnectSession_def quiet_teardown quiet_refl)

lemma quiet_updateTab: "quiet s (updateConnectedTab tab s)"
  by (rule quiet_frame) (simp_all add: updateConnectedTab_def split: option.split)

lemma quiet_instance_disconnect: "quiet s (instance_disconnect w s)"
  unfolding instance_disconnect_def by (rule quiet_chain [OF quiet_slot_None quiet_close])

lemma quiet_sendStatus: "quiet s (instance_sendStatusUpdate w tab s)"
  by (simp add: instance_sendStatusUpdate_def quiet_refl quiet_throw quiet_send split: sum.split)

lemma quiet_tabs_get_callback: "quiet s (tabs_get_callback w tab s)"
  by (simp add: tabs_get_callback_def quiet_refl quiet_sendStatus split: option.split)

lemma quiet_tool_call: "quiet s (handleToolRequest_call m tab (log DEBUG ''Tool request received: '' s))"
  by (rule quiet_frame) (simp_all add: handleToolRequest_call_def log_def)

lemma quiet_onmessage: "quiet s (ws_onmessage data s)"
  by (simp add: ws_onmessage_def onmessage_try_def quiet_log quiet_handlePong quiet_tool_call
        split: option.split sum.split)

lemma quiet_resume: "quiet s (ws_onmessage_resume w request outcome s)"
proof (cases outcome)
  case (Inl e)
  then show ?thesis by (simp add: ws_onmessage_resume_def quiet_log)
next
  case (Inr r)
  show ?thesis
  proof (cases "ws_send w r s")
    case (Inl e)
    with Inr show ?thesis by (simp add: ws_onmessage_resume_def quiet_log)
  next
    case (Inr s')
    have "quiet s (log lvl msg s')" for lvl msg
      by (rule quiet_chain [OF quiet_log quiet_send [OF Inr]])
    with Inr \<open>outcome = Inr r\<close> show ?thesis
      by (simp add: ws_onmessage_resume_def split: sum.split)
  qed
qed

lemma quiet_onerror: "quiet s (ws_onerror w s)"
  unfolding ws_onerror_def reject_def
  by (rule quiet_chain [OF quiet_keep quiet_log]) simp

lemma quiet_onclose: "quiet s (ws_onclose s)"
  unfolding ws_onclose_def
  by (rule quiet_chain [OF quiet_notify], rule quiet_chain [OF quiet_alarm_stop],
      rule quiet_chain [OF quiet_stopHeartbeat], rule quiet_chain [OF quiet_slot_None],
      rule quiet_log)

lemma quiet_keepalive: "quiet s (handleKeepaliveAlarm s)"
proof -
  define s0 where "s0 = log TRACE ''Keepalive alarm fired'' s"
  have q0: "quiet s s0" unfolding s0_def by (rule quiet_log)
  have "quiet s0 (stopKeepaliveAlarm
               (log INFO ''No active connection during keepalive, stopping alarm'' s0))"
    by (rule quiet_chain [OF quiet_alarm_stop quiet_log])
  moreover have "quiet s0 (notify_connection_closed
                 (stopKeepaliveAlarm
                   (stopHeartbeat
                     ((log WARN msg s0)\<lparr>currentConnection := None\<rparr>))))" for msg
    by (rule quiet_chain [OF quiet_notify], rule quiet_chain [OF quiet_alarm_stop],
      rule quiet_chain [OF quiet_stopHeartbeat], rule quiet_chain [OF quiet_slot_None],
      rule quiet_log)
  moreover have "quiet s0 (log TRACE ''Connection healthy during keepalive check'' s0)"
    by (rule quiet_log)
  ultimately have "quiet s0 (handleKeepaliveAlarm s)"
    unfolding handleKeepaliveAlarm_def Let_def s0_def by (simp split: option.split)
  with q0 show ?thesis by (rule quiet_trans)
qed

lemma quiet_pong_timeout: "quiet s (pong_timeout w s)"
  unfolding pong_timeout_def by (rule quiet_chain [OF quiet_close quiet_log])

lemma quiet_heartbeat_cycle: "quiet s (heartbeat_cycle w s)"
proof (cases "ws_readyState s w = OPEN")
  case False
  then show ?thesis by (simp add: heartbeat_cycle_def quiet_refl)
next
  case True
  define s2 where "s2 = log TRACE ''Sending heartbeat ping'' (case heartbeatTimeout s of
      Some t \<Rightarrow> (clearTimeout t s)\<lparr>heartbeatTimeout := None\<rparr> | None \<Rightarrow> s)"
  have q2: "quiet s s2"
    unfolding s2_def by (rule quiet_frame) (simp_all add: log_def clearTimeout_def split: option.split)
  have eq: "heartbeat_cycle w s =
      (case ws_send w ping_frame s2 of
         Inl e \<Rightarrow> throw_uncaught e s2
       | Inr s3 \<Rightarrow>
           (case setTimeout (PongTimeout w) HEARTBEAT_TIMEOUT_MS s3 of
              (t, s4) \<Rightarrow> s4\<lparr>heartbeatTimeout := Some t\<rparr>))"
    using True unfolding s2_def heartbeat_cycle_def Let_def by simp
  show ?thesis
  proof (cases "ws_send w ping_frame s2")
    case (Inl e)
    then show ?thesis unfolding eq by (simp add: quiet_chain [OF quiet_throw q2])
  next
    case (Inr s3)
    have "quiet s3 (case setTimeout (PongTimeout w) HEARTBEAT_TIMEOUT_MS s3 of
              (t, s4) \<Rightarrow> s4\<lparr>heartbeatTimeout := Some t\<rparr>)"
      by (rule quiet_frame) (simp_all add: setTimeout_def)
    from quiet_trans [OF quiet_trans [OF q2 quiet_send [OF Inr]] this]
    show ?thesis unfolding eq Inr by simp
  qed
qed

lemma quiet_fire_timer: "quiet s (fire_timer t s)"
proof (cases "timers s t")
  case None
  then show ?thesis by (simp add: fire_timer_def quiet_refl)
next
  case (Some tm)
  have a: "quiet s (if repeating tm then s else s\<lparr>timers := (timers s)(t := None)\<rparr>)"
    by (rule quiet_frame) simp_all
  have b: "quiet s' (run_callback cb s')" for cb s'
    by (cases cb) (simp_all add: run_callback_def quiet_heartbeat_cycle quiet_pong_timeout)
  from quiet_trans [OF a b] Some show ?thesis by (simp add: fire_timer_def)
qed

lemma quiet_step: "\<not> is_open_event e \<Longrightarrow> quiet s (step e s)"
proof (cases e)
  case (WsClose w)
  have "quiet s (update_socket w (\<lambda>k. k\<lparr>readyState := CLOSED\<rparr>) s)"
    by (rule quiet_set_state) simp
  from quiet_trans [OF this quiet_onclose] WsClose show ?thesis by (simp add: quiet_refl)
next
  case (SetListener b)
  have "quiet s (s\<lparr>listener := b\<rparr>)" by (rule quiet_frame) simp_all
  with SetListener show ?thesis by simp
qed (simp_all add: quiet_refl quiet_connect quiet_disconnect quiet_updateTab
       quiet_instance_disconnect quiet_sendStatus quiet_tabs_get_callback quiet_onmessage
       quiet_resume quiet_onerror quiet_keepalive quiet_fire_timer split: option.split)

lemma quiet_run: "no_open es \<Longrightarrow> quiet s (run es s)"
proof (induction es arbitrary: s)
  case Nil
  show ?case by (simp add: quiet_refl)
next
  case (Cons e es)
  from Cons.prems have "\<not> is_open_event e" "no_open es"
    by (auto simp: no_open_def split: if_splits)
  from quiet_trans [OF quiet_step [OF this(1)] Cons.IH [OF this(2)]] show ?case by simp
qed

lemma status_live: "getConnectionStatus s = disconnected_status \<longleftrightarrow> \<not> live s"
  by (simp add: getConnectionStatus_def live_def disconnected_status_def split: option.split)

lemma quiet_live: "quiet s s' \<Longrightarrow> \<not> live s \<Longrightarrow> \<not> live s'"
  unfolding quiet_def live_def by (cases "currentConnection s'") fastforce+

lemmas eval_defs = init_def host_defs module_defs const_defs

subsection \<open>C1: two rapid connects\<close>

text \<open>
  C1 (the code departs from it). The claim: after two rapid \<open>connect\<close> calls for different
  sessions there is exactly one Connection, that of the second call, the first transport
  is closed and the second connection's keepalive and heartbeat keep running. The code at
  the input below: session A is connected, \<open>connect\<close> for session B tears A down and calls
  \<open>close()\<close> on A's socket (which is CLOSING from then on), B's socket opens and B is
  installed; then the close event of A's socket is delivered. Its \<open>onclose\<close> handler does
  not look at which socket it belongs to: it empties the slot, stops B's heartbeat and
  clears the keepalive alarm, while B's socket stays open.
\<close>

theorem stale_close_clobbers_new_connection:
  "currentConnection
     (run [Connect ''sessionA'' 9001 1, WsOpen 0, Connect ''sessionB'' 9002 2, WsOpen 1] init)
     = Some \<lparr>ws = 1, sessionName = ''sessionB'', port = 9002, tabId = Some 2\<rparr> \<and>
   ws_readyState
     (run [Connect ''sessionA'' 9001 1, WsOpen 0, Connect ''sessionB'' 9002 2, WsOpen 1] init) 0
     = CLOSING \<and>
   currentConnection
     (run [Connect ''sessionA'' 9001 1, WsOpen 0, Connect ''sessionB'' 9002 2, WsOpen 1,
           WsClose 0] init) = None \<and>
   ws_readyState
     (run [Connect ''sessionA'' 9001 1, WsOpen 0, Connect ''sessionB'' 9002 2, WsOpen 1,
           WsClose 0] init) 1 = OPEN \<and>
   heartbeatInterval
     (run [Connect ''sessionA'' 9001 1, WsOpen 0, Connect ''sessionB'' 9002 2, WsOpen 1,
           WsClose 0] init) = None \<and>
   timers
     (run [Connect ''sessionA'' 9001 1, WsOpen 0, Connect ''sessionB'' 9002 2, WsOpen 1,
           WsClose 0] init) = Map.empty \<and>
   alarms
     (run [Connect ''sessionA'' 9001 1, WsOpen 0, Connect ''sessionB'' 9002 2, WsOpen 1,
           WsClose 0] init) KEEPALIVE_ALARM_NAME = None \<and>
   getConnectionStatus
     (run [Connect ''sessionA'' 9001 1, WsOpen 0, Connect ''sessionB'' 9002 2, WsOpen 1,
           WsClose 0] init) = disconnected_status"
  by (simp add: eval_defs)

text \<open>
  The same defect by another path: a second \<open>connect\<close> issued before the first socket has
  opened finds the slot empty, so nothing is torn down; both sockets open, and the first
  one is never closed.
\<close>

lemma overlapping_connects_leave_two_open:
  "currentConnection
     (run [Connect ''sessionA'' 9001 1, Connect ''sessionB'' 9002 2, WsOpen 0, WsOpen 1] init)
     = Some \<lparr>ws = 1, sessionName = ''sessionB'', port = 9002, tabId = Some 2\<rparr> \<and>
   ws_readyState
     (run [Connect ''sessionA'' 9001 1, Connect ''sessionB'' 9002 2, WsOpen 0, WsOpen 1] init) 0
     = OPEN \<and>
   ws_readyState
     (run [Connect ''sessionA'' 9001 1, Connect ''sessionB'' 9002 2, WsOpen 0, WsOpen 1] init) 1
     = OPEN"
  by (simp add: eval_defs)

text \<open>
  What does hold of C1: a \<open>connect\<close> issued while the slot is occupied tears the old
  connection down first. The socket is created in a state in which the slot is empty,
  both heartbeat handles are cleared, the keepalive alarm is deregistered and \<open>close()\<close>
  has been called on the old socket.
\<close>

lemma connect_tears_down_first:
  assumes "currentConnection s = Some c" and "p \<le> 65535"
  shows "\<exists>s1. connectToSession name p tab s = alloc_socket name p tab s1 \<and>
              currentConnection s1 = None \<and> heartbeatInterval s1 = None \<and>
              heartbeatTimeout s1 = None \<and> alarms s1 KEEPALIVE_ALARM_NAME = None \<and>
              ws_readyState s1 (ws c) \<noteq> OPEN \<and> ws_readyState s1 (ws c) \<noteq> CONNECTING"
proof -
  define s1 where
    "s1 = (ws_close (ws c) (stopKeepaliveAlarm (stopHeartbeat s)))\<lparr>currentConnection := None\<rparr>"
  have "connectToSession name p tab s = alloc_socket name p tab s1"
    using assms by (simp add: connectToSession_def Let_def new_WebSocket_def s1_def)
  moreover have "currentConnection s1 = None" by (simp add: s1_def)
  moreover have "heartbeatInterval s1 = None" "heartbeatTimeout s1 = None"
    "alarms s1 KEEPALIVE_ALARM_NAME = None"
    by (simp_all add: s1_def ws_close_fields stopKeepaliveAlarm_def alarms_clear_def log_def
          stopHeartbeat_fields)
  moreover have "ws_readyState s1 (ws c) = ws_readyState (ws_close (ws c) (stopKeepaliveAlarm (stopHeartbeat s))) (ws c)"
    unfolding s1_def by (rule rs_frame) simp
  then have "ws_readyState s1 (ws c) \<noteq> OPEN \<and> ws_readyState s1 (ws c) \<noteq> CONNECTING"
    by (simp add: rs_close)
  ultimately show ?thesis by blast
qed

subsection \<open>C2: the pong timeout\<close>

text \<open>
  A heartbeat cycle on an OPEN socket sends one ping and arms the pong timeout: a one-shot
  timer of \<open>HEARTBEAT_TIMEOUT_MS\<close> whose handle is stored in \<open>heartbeatTimeout\<close>. A pong
  clears that timer (\<open>handlePong_clears\<close> below), so a pong timeout that is still live
  when it fires is one for which no pong was observed.
\<close>

lemma heartbeat_cycle_arms_timeout:
  assumes "ws_readyState s w = OPEN"
  shows "heartbeatTimeout (heartbeat_cycle w s) = Some (next_timer s) \<and>
         timers (heartbeat_cycle w s) (next_timer s)
           = Some \<lparr>repeating = False, delay_ms = HEARTBEAT_TIMEOUT_MS, callback = PongTimeout w\<rparr> \<and>
         (\<exists>k. socket_at s w = Some k \<and>
              map_option sent (socket_at (heartbeat_cycle w s) w) = Some (sent k @ [ping_frame]))"
proof -
  from assms obtain k where k: "socket_at s w = Some k" "readyState k = OPEN"
    by (auto simp: ws_readyState_def split: option.splits)
  define s2 where "s2 = log TRACE ''Sending heartbeat ping'' (case heartbeatTimeout s of
      Some t \<Rightarrow> (clearTimeout t s)\<lparr>heartbeatTimeout := None\<rparr> | None \<Rightarrow> s)"
  have sock: "sockets s2 = sockets s" and nt: "next_timer s2 = next_timer s"
    by (simp_all add: s2_def log_def clearTimeout_def split: option.split)
  from socket_at_frame [OF sock] k have k2: "socket_at s2 w = Some k" by simp
  with k have o2: "ws_readyState s2 w = OPEN" by (simp add: ws_readyState_def)
  define s3 where "s3 = update_socket w (\<lambda>k. k\<lparr>sent := sent k @ [ping_frame]\<rparr>) s2"
  have send: "ws_send w ping_frame s2 = Inr s3" using o2 by (simp add: ws_send_def s3_def)
  have eq: "heartbeat_cycle w s =
      (case setTimeout (PongTimeout w) HEARTBEAT_TIMEOUT_MS s3 of
              (t, s4) \<Rightarrow> s4\<lparr>heartbeatTimeout := Some t\<rparr>)"
    using assms send unfolding s2_def heartbeat_cycle_def Let_def by simp
  have n3: "next_timer s3 = next_timer s" by (simp add: s3_def update_socket_fields nt)
  have k3: "socket_at s3 w = Some (k\<lparr>sent := sent k @ [ping_frame]\<rparr>)"
    using k2 by (simp add: s3_def socket_at_update)
  have "socket_at (heartbeat_cycle w s) w = socket_at s3 w"
    unfolding eq by (rule socket_at_frame) (simp add: setTimeout_def)
  with k3 k show ?thesis unfolding eq by (simp add: setTimeout_def n3)
qed

text \<open>
  What does hold of C2. In every state the module can reach, a pong timeout that is
  still pending (a live one-shot timer armed by a heartbeat cycle) was armed with the
  configured delay of 10000 ms, and when it fires the socket it was armed for is closed
  (CLOSING or CLOSED). From then on \<open>getConnectionStatus\<close> returns the disconnected
  status, also after any further events, as long as no transport opens.
\<close>

lemma live_pong_timeout_closes_transport:
  assumes live_t: "timers (run evs init) t = Some tm" and cb: "callback tm = PongTimeout w"
  shows "delay_ms tm = HEARTBEAT_TIMEOUT_MS \<and>
         (ws_readyState (step (TimerFire t) (run evs init)) w = CLOSING \<or>
          ws_readyState (step (TimerFire t) (run evs init)) w = CLOSED) \<and>
         (\<forall>es. no_open es \<longrightarrow>
            getConnectionStatus (run es (step (TimerFire t) (run evs init))) = disconnected_status)"
proof -
  define s where "s = run evs init"
  have tr: "timers_tracked s" unfolding s_def by (rule tracked_reachable)
  from trackedD [OF tr live_t [folded s_def]] cb
  have tm: "tm = timer_for (PongTimeout w)" and slot: "slot_on s w" by simp_all
  define s1 where "s1 = log WARN ''Heartbeat pong not received within timeout, closing connection''
     (s\<lparr>timers := (timers s)(t := None)\<rparr>)"
  have fire: "step (TimerFire t) s = ws_close w s1"
    using live_t [folded s_def] tm
    by (simp add: fire_timer_def run_callback_def pong_timeout_def s1_def)
  have closed: "ws_readyState (ws_close w s1) w = CLOSING \<or> ws_readyState (ws_close w s1) w = CLOSED"
    by (cases "ws_readyState s1 w") (simp_all add: rs_close)
  have cur: "currentConnection (ws_close w s1) = currentConnection s"
    by (simp add: ws_close_fields s1_def log_def)
  have dead: "\<not> live (ws_close w s1)"
  proof (cases "currentConnection s")
    case None
    with cur show ?thesis by (simp add: live_def)
  next
    case (Some c)
    with slot have "ws c = w" by (simp add: slot_on_def)
    with Some cur closed show ?thesis by (auto simp: live_def)
  qed
  have "getConnectionStatus (run es (ws_close w s1)) = disconnected_status" if "no_open es" for es
    using quiet_live [OF quiet_run [OF that] dead] by (simp add: status_live)
  with closed tm show ?thesis unfolding s_def [symmetric] fire by simp
qed

lemma live_pong_timeout_example:
  "timers (run [Connect ''sessionX'' 9001 42, WsOpen 0, TimerFire 1] init) 2 =
     Some \<lparr>repeating = False, delay_ms = 10000, callback = PongTimeout 0\<rparr> \<and>
   ws_readyState
     (step (TimerFire 2) (run [Connect ''sessionX'' 9001 42, WsOpen 0, TimerFire 1] init)) 0
     = CLOSING \<and>
   getConnectionStatus
     (run [UpdateTab 7, AlarmFire]
        (step (TimerFire 2) (run [Connect ''sessionX'' 9001 42, WsOpen 0, TimerFire 1] init)))
     = disconnected_status"
proof -
  have h: "timers (run [Connect ''sessionX'' 9001 42, WsOpen 0, TimerFire 1] init) 2 =
     Some \<lparr>repeating = False, delay_ms = 10000, callback = PongTimeout 0\<rparr>"
    by (simp add: eval_defs)
  have q: "no_open [UpdateTab 7, AlarmFire]" by (simp add: no_open_def)
  have c: "callback \<lparr>repeating = False, delay_ms = 10000, callback = PongTimeout 0\<rparr> = PongTimeout 0"
    by simp
  from live_pong_timeout_closes_transport [OF h c] q
  have "getConnectionStatus
     (run [UpdateTab 7, AlarmFire]
        (step (TimerFire 2) (run [Connect ''sessionX'' 9001 42, WsOpen 0, TimerFire 1] init)))
     = disconnected_status" by blast
  moreover have "ws_readyState
     (step (TimerFire 2) (run [Connect ''sessionX'' 9001 42, WsOpen 0, TimerFire 1] init)) 0
     = CLOSING" by (simp add: eval_defs)
  ultimately show ?thesis using h by simp
qed

text \<open>
  C2 (the code departs from it). The claim: for every established connection, when no
  pong is observed within the timeout after a ping was sent, the transport is closed.
  The code at the input below, which continues the one of C1: session A is connected,
  \<open>connect\<close> for session B tears A down, B's socket opens and B is installed; B's
  heartbeat cycle sends a ping on B's socket and arms the pong timeout (timer 3, 10000
  ms). Then the close event of A's socket is delivered: its \<open>onclose\<close> handler calls
  \<open>stopHeartbeat\<close>, which cancels B's pong timeout and B's heartbeat interval. No pong
  was observed, no timer is left to fire, and B's socket stays OPEN. This is the defect
  of C1 (a close handler that does not check which socket it belongs to) seen from the
  heartbeat.
\<close>

theorem stale_close_cancels_pong_timeout:
  "ws_sent
     (run [Connect ''sessionA'' 9001 1, WsOpen 0, Connect ''sessionB'' 9002 2, WsOpen 1,
           TimerFire 2] init) 1 = [ping_frame] \<and>
   heartbeatTimeout
     (run [Connect ''sessionA'' 9001 1, WsOpen 0, Connect ''sessionB'' 9002 2, WsOpen 1,
           TimerFire 2] init) = Some 3 \<and>
   timers
     (run [Connect ''sessionA'' 9001 1, WsOpen 0, Connect ''sessionB'' 9002 2, WsOpen 1,
           TimerFire 2] init) 3
     = Some \<lparr>repeating = False, delay_ms = HEARTBEAT_TIMEOUT_MS, callback = PongTimeout 1\<rparr> \<and>
   timers
     (run [Connect ''sessionA'' 9001 1, WsOpen 0, Connect ''sessionB'' 9002 2, WsOpen 1,
           TimerFire 2, WsClose 0] init) = Map.empty \<and>
   heartbeatTimeout
     (run [Connect ''sessionA'' 9001 1, WsOpen 0, Connect ''sessionB'' 9002 2, WsOpen 1,
           TimerFire 2, WsClose 0] init) = None \<and>
   ws_readyState
     (run [Connect ''sessionA'' 9001 1, WsOpen 0, Connect ''sessionB'' 9002 2, WsOpen 1,
           TimerFire 2, WsClose 0] init) 1 = OPEN \<and>
   ws_readyState
     (run [Connect ''sessionA'' 9001 1, WsOpen 0, Connect ''sessionB'' 9002 2, WsOpen 1,
           TimerFire 2, WsClose 0, TimerFire 3, TimerFire 2, AlarmFire] init) 1 = OPEN"
  by (simp add: eval_defs ws_sent_def)

subsection \<open>C3: transport close and transport error\<close>

lemma onclose_fields:
  "currentConnection (ws_onclose s) = None"
  "heartbeatInterval (ws_onclose s) = None"
  "heartbeatTimeout (ws_onclose s) = None"
  "alarms (ws_onclose s) KEEPALIVE_ALARM_NAME = None"
  "runtime_messages (ws_onclose s) = runtime_messages s @ [CONNECTION_CLOSED]"
  "uncaught (ws_onclose s) = uncaught s"
  "sockets (ws_onclose s) = sockets s"
  by (simp_all add: ws_onclose_def notify_connection_closed_def runtime_sendMessage_def
        stopKeepaliveAlarm_def alarms_clear_def log_def stopHeartbeat_fields)

lemma onclose_timers: "timers_tracked s \<Longrightarrow> timers (ws_onclose s) = Map.empty"
proof -
  assume tr: "timers_tracked s"
  have "timers_tracked ((log INFO ''WebSocket connection closed'' s)\<lparr>currentConnection := None\<rparr>)"
    by (intro tracked_slot_None tracked_log tr)
  from stopHeartbeat_timers [OF this] show ?thesis
    by (simp add: ws_onclose_def notify_connection_closed_def runtime_sendMessage_def
        stopKeepaliveAlarm_def alarms_clear_def log_def)
qed

lemma stopHeartbeat_listener:
  "stopHeartbeat (s\<lparr>listener := b\<rparr>) = (stopHeartbeat s)\<lparr>listener := b\<rparr>"
  by (simp add: stopHeartbeat_def clearInterval_def clearTimeout_def Let_def split: option.split)

lemma onclose_listener: "ws_onclose (s\<lparr>listener := b\<rparr>) = (ws_onclose s)\<lparr>listener := b\<rparr>"
proof -
  have a: "(log INFO ''WebSocket connection closed'' (s\<lparr>listener := b\<rparr>))\<lparr>currentConnection := None\<rparr>
        = ((log INFO ''WebSocket connection closed'' s)\<lparr>currentConnection := None\<rparr>)\<lparr>listener := b\<rparr>"
    by (simp add: log_def)
  have c: "stopKeepaliveAlarm (x\<lparr>listener := b\<rparr>) = (stopKeepaliveAlarm x)\<lparr>listener := b\<rparr>" for x
    by (simp add: stopKeepaliveAlarm_def alarms_clear_def log_def)
  have d: "notify_connection_closed (x\<lparr>listener := b\<rparr>) = (notify_connection_closed x)\<lparr>listener := b\<rparr>" for x
    by (simp add: notify_connection_closed_def runtime_sendMessage_def)
  show ?thesis unfolding ws_onclose_def a stopHeartbeat_listener c d ..
qed

lemma onerror_fields:
  "currentConnection (ws_onerror w s) = currentConnection s"
  "heartbeatInterval (ws_onerror w s) = heartbeatInterval s"
  "heartbeatTimeout (ws_onerror w s) = heartbeatTimeout s"
  "timers (ws_onerror w s) = timers s"
  "alarms (ws_onerror w s) = alarms s"
  "runtime_messages (ws_onerror w s) = runtime_messages s"
  "uncaught (ws_onerror w s) = uncaught s"
  by (simp_all add: ws_onerror_def reject_def update_socket_fields log_def)

lemma onerror_listener: "ws_onerror w (s\<lparr>listener := b\<rparr>) = (ws_onerror w s)\<lparr>listener := b\<rparr>"
  by (simp add: ws_onerror_def reject_def update_socket_def socket_at_def log_def
        split: option.split)

lemma run_snoc: "run (es @ [e]) s = step e (run es s)"
  by (induction es arbitrary: s) simp_all

text \<open>The close event of a socket that is not yet CLOSED, in a reachable state.\<close>

lemma close_event_effect:
  assumes "ws_readyState (run evs init) w \<noteq> CLOSED"
  shows "currentConnection (step (WsClose w) (run evs init)) = None \<and>
         heartbeatInterval (step (WsClose w) (run evs init)) = None \<and>
         heartbeatTimeout (step (WsClose w) (run evs init)) = None \<and>
         timers (step (WsClose w) (run evs init)) = Map.empty \<and>
         alarms (step (WsClose w) (run evs init)) KEEPALIVE_ALARM_NAME = None \<and>
         runtime_messages (step (WsClose w) (run evs init))
           = runtime_messages (run evs init) @ [CONNECTION_CLOSED] \<and>
         uncaught (step (WsClose w) (run evs init)) = uncaught (run evs init) \<and>
         step (WsClose w) ((run evs init)\<lparr>listener := b\<rparr>)
           = (step (WsClose w) (run evs init))\<lparr>listener := b\<rparr>"
proof -
  define s where "s = run evs init"
  define s1 where "s1 = update_socket w (\<lambda>k. k\<lparr>readyState := CLOSED\<rparr>) s"
  have tr: "timers_tracked s1"
    unfolding s1_def s_def by (intro tracked_update_socket tracked_reachable)
  have cl: "step (WsClose w) s = ws_onclose s1"
    using assms by (simp add: s_def s1_def)
  have l: "step (WsClose w) (s\<lparr>listener := b\<rparr>) = (ws_onclose s1)\<lparr>listener := b\<rparr>"
  proof -
    have "ws_readyState (s\<lparr>listener := b\<rparr>) w = ws_readyState s w"
      by (rule rs_frame) simp
    moreover have "update_socket w (\<lambda>k. k\<lparr>readyState := CLOSED\<rparr>) (s\<lparr>listener := b\<rparr>) = s1\<lparr>listener := b\<rparr>"
      by (simp add: s1_def update_socket_def socket_at_def)
    ultimately show ?thesis using assms by (simp add: s_def [symmetric] onclose_listener)
  qed
  show ?thesis
    unfolding s_def [symmetric] cl l
    by (simp add: onclose_fields onclose_timers [OF tr])
       (simp add: s1_def update_socket_fields)
qed

text \<open>
  C3. In every reachable state, for every socket that is not yet CLOSED (that of an
  established connection among them): a transport close event, and a transport error
  event (the browser fires \<open>error\<close> and then \<open>close\<close> in one task, so the handlers
  \<open>ws.onerror\<close> and \<open>ws.onclose\<close> run one after the other), leave the slot empty, the
  heartbeat stopped (both handles cleared, no timer left) and the keepalive alarm
  deregistered, and emit exactly one \<open>CONNECTION_CLOSED\<close> message. Nothing is raised, and
  apart from the \<open>listener\<close> flag itself the resulting state is the same whether or not a
  listener receives the message.
\<close>

theorem close_or_error_event_tears_down:
  assumes "ws_readyState (run evs init) w \<noteq> CLOSED"
  shows "currentConnection (step (WsClose w) (run evs init)) = None \<and>
         heartbeatInterval (step (WsClose w) (run evs init)) = None \<and>
         heartbeatTimeout (step (WsClose w) (run evs init)) = None \<and>
         timers (step (WsClose w) (run evs init)) = Map.empty \<and>
         alarms (step (WsClose w) (run evs init)) KEEPALIVE_ALARM_NAME = None \<and>
         runtime_messages (step (WsClose w) (run evs init))
           = runtime_messages (run evs init) @ [CONNECTION_CLOSED] \<and>
         uncaught (step (WsClose w) (run evs init)) = uncaught (run evs init) \<and>
         step (WsClose w) ((run evs init)\<lparr>listener := b\<rparr>)
           = (step (WsClose w) (run evs init))\<lparr>listener := b\<rparr> \<and>
         currentConnection (run [WsError w, WsClose w] (run evs init)) = None \<and>
         heartbeatInterval (run [WsError w, WsClose w] (run evs init)) = None \<and>
         heartbeatTimeout (run [WsError w, WsClose w] (run evs init)) = None \<and>
         timers (run [WsError w, WsClose w] (run evs init)) = Map.empty \<and>
         alarms (run [WsError w, WsClose w] (run evs init)) KEEPALIVE_ALARM_NAME = None \<and>
         runtime_messages (run [WsError w, WsClose w] (run evs init))
           = runtime_messages (run evs init) @ [CONNECTION_CLOSED] \<and>
         uncaught (run [WsError w, WsClose w] (run evs init)) = uncaught (run evs init) \<and>
         run [WsError w, WsClose w] ((run evs init)\<lparr>listener := b\<rparr>)
           = (run [WsError w, WsClose w] (run evs init))\<lparr>listener := b\<rparr>"
proof -
  define s where "s = run evs init"
  have er: "step (WsError w) s = ws_onerror w s"
    using assms by (simp add: s_def)
  have reach: "ws_onerror w s = run (evs @ [WsError w]) init"
    using er by (simp add: run_snoc s_def)
  have "ws_readyState (ws_onerror w s) w = ws_readyState (log ERROR ''WebSocket error:'' s) w"
    unfolding ws_onerror_def reject_def by (rule rs_keep) simp
  also have "\<dots> = ws_readyState s w" by (rule rs_frame) (simp add: log_def)
  finally have open_e: "ws_readyState (ws_onerror w s) w \<noteq> CLOSED"
    using assms by (simp add: s_def)
  note c1 = close_event_effect [OF assms, of b, folded s_def]
  note c2 = close_event_effect [OF open_e [unfolded reach], of b, folded reach]
  have seq: "run [WsError w, WsClose w] s = step (WsClose w) (ws_onerror w s)"
    by (simp only: run.simps er)
  have seql: "run [WsError w, WsClose w] (s\<lparr>listener := b\<rparr>)
      = step (WsClose w) ((ws_onerror w s)\<lparr>listener := b\<rparr>)"
  proof -
    have "ws_readyState (s\<lparr>listener := b\<rparr>) w = ws_readyState s w"
      by (rule rs_frame) simp
    with assms have "step (WsError w) (s\<lparr>listener := b\<rparr>) = ws_onerror w (s\<lparr>listener := b\<rparr>)"
      by (simp add: s_def)
    then show ?thesis by (simp only: run.simps onerror_listener)
  qed
  from c1 c2 show ?thesis
    unfolding s_def [symmetric] seq seql by (simp add: onerror_fields)
qed

theorem close_or_error_event_tears_down_witness:
  "ws_readyState (run [Connect ''sessionX'' 9001 42, WsOpen 0] init) 0 = OPEN \<and>
   currentConnection (step (WsClose 0) (run [Connect ''sessionX'' 9001 42, WsOpen 0] init)) = None \<and>
   timers (step (WsClose 0) (run [Connect ''sessionX'' 9001 42, WsOpen 0] init)) = Map.empty \<and>
   alarms (step (WsClose 0) (run [Connect ''sessionX'' 9001 42, WsOpen 0] init))
     KEEPALIVE_ALARM_NAME = None \<and>
   runtime_messages (step (WsClose 0) (run [Connect ''sessionX'' 9001 42, WsOpen 0] init))
     = [CONNECTION_CLOSED] \<and>
   uncaught (step (WsClose 0) (run [Connect ''sessionX'' 9001 42, WsOpen 0] init)) = [] \<and>
   currentConnection
     (run [WsError 0, WsClose 0] (run [Connect ''sessionX'' 9001 42, WsOpen 0] init)) = None \<and>
   timers (run [WsError 0, WsClose 0] (run [Connect ''sessionX'' 9001 42, WsOpen 0] init))
     = Map.empty \<and>
   alarms (run [WsError 0, WsClose 0] (run [Connect ''sessionX'' 9001 42, WsOpen 0] init))
     KEEPALIVE_ALARM_NAME = None \<and>
   runtime_messages
     (run [WsError 0, WsClose 0] (run [Connect ''sessionX'' 9001 42, WsOpen 0] init))
     = [CONNECTION_CLOSED] \<and>
   uncaught (run [WsError 0, WsClose 0] (run [Connect ''sessionX'' 9001 42, WsOpen 0] init)) = []"
proof -
  have h: "ws_readyState (run [Connect ''sessionX'' 9001 42, WsOpen 0] init) 0 = OPEN"
    by (simp add: eval_defs)
  then have n: "ws_readyState (run [Connect ''sessionX'' 9001 42, WsOpen 0] init) 0 \<noteq> CLOSED"
    by simp
  have r: "runtime_messages (run [Connect ''sessionX'' 9001 42, WsOpen 0] init) = []"
    "uncaught (run [Connect ''sessionX'' 9001 42, WsOpen 0] init) = []"
    by (simp_all add: eval_defs)
  note th = close_or_error_event_tears_down [OF n, of True]
  from th h show ?thesis unfolding r by (simp only: append_Nil simp_thms)
qed

subsection \<open>C4: the keepalive alarm\<close>

lemma quiet_alarm: "quiet s s' \<Longrightarrow> alarms s KEEPALIVE_ALARM_NAME = None \<Longrightarrow> alarms s' KEEPALIVE_ALARM_NAME = None"
  unfolding quiet_def by blast

text \<open>
  C4. For every keepalive firing in a reachable state. With an empty slot the handler only
  deregisters the alarm (and logs); the alarm then stays deregistered, so it cannot fire,
  over any later events in which no transport opens. With a connection whose socket is
  not OPEN it empties the slot, stops the heartbeat (handles cleared, no timer left),
  deregisters the alarm and emits \<open>CONNECTION_CLOSED\<close>. With a connection whose socket is
  OPEN it changes nothing but the log.
\<close>

theorem keepalive_firing:
  "(currentConnection (run evs init) = None \<longrightarrow>
      (handleKeepaliveAlarm (run evs init))\<lparr>logs := logs (run evs init)\<rparr>
        = (run evs init)\<lparr>alarms := (alarms (run evs init))(KEEPALIVE_ALARM_NAME := None)\<rparr> \<and>
      (\<forall>es. no_open es \<longrightarrow>
         alarms (run es (handleKeepaliveAlarm (run evs init))) KEEPALIVE_ALARM_NAME = None \<and>
         step AlarmFire (run es (handleKeepaliveAlarm (run evs init)))
           = run es (handleKeepaliveAlarm (run evs init)))) \<and>
   (\<forall>c. currentConnection (run evs init) = Some c \<and> ws_readyState (run evs init) (ws c) \<noteq> OPEN \<longrightarrow>
      currentConnection (handleKeepaliveAlarm (run evs init)) = None \<and>
      heartbeatInterval (handleKeepaliveAlarm (run evs init)) = None \<and>
      heartbeatTimeout (handleKeepaliveAlarm (run evs init)) = None \<and>
      timers (handleKeepaliveAlarm (run evs init)) = Map.empty \<and>
      alarms (handleKeepaliveAlarm (run evs init)) KEEPALIVE_ALARM_NAME = None \<and>
      runtime_messages (handleKeepaliveAlarm (run evs init))
        = runtime_messages (run evs init) @ [CONNECTION_CLOSED]) \<and>
   (\<forall>c. currentConnection (run evs init) = Some c \<and> ws_readyState (run evs init) (ws c) = OPEN \<longrightarrow>
      (handleKeepaliveAlarm (run evs init))\<lparr>logs := logs (run evs init)\<rparr> = run evs init)"
proof -
  define s where "s = run evs init"
  have tr: "timers_tracked s" unfolding s_def by (rule tracked_reachable)
  have none: "(handleKeepaliveAlarm s)\<lparr>logs := logs s\<rparr>
        = s\<lparr>alarms := (alarms s)(KEEPALIVE_ALARM_NAME := None)\<rparr>"
    if "currentConnection s = None"
    using that
    by (simp add: handleKeepaliveAlarm_def Let_def log_def stopKeepaliveAlarm_def alarms_clear_def)
  have later: "alarms (run es (handleKeepaliveAlarm s)) KEEPALIVE_ALARM_NAME = None \<and>
         step AlarmFire (run es (handleKeepaliveAlarm s)) = run es (handleKeepaliveAlarm s)"
    if "currentConnection s = None" "no_open es" for es
  proof -
    have "alarms (handleKeepaliveAlarm s) KEEPALIVE_ALARM_NAME = None"
      using that(1)
      by (simp add: handleKeepaliveAlarm_def Let_def log_def stopKeepaliveAlarm_def alarms_clear_def)
    from quiet_alarm [OF quiet_run [OF that(2)] this] show ?thesis by simp
  qed
  have stale: "currentConnection (handleKeepaliveAlarm s) = None \<and>
      heartbeatInterval (handleKeepaliveAlarm s) = None \<and>
      heartbeatTimeout (handleKeepaliveAlarm s) = None \<and>
      timers (handleKeepaliveAlarm s) = Map.empty \<and>
      alarms (handleKeepaliveAlarm s) KEEPALIVE_ALARM_NAME = None \<and>
      runtime_messages (handleKeepaliveAlarm s) = runtime_messages s @ [CONNECTION_CLOSED]"
    if "currentConnection s = Some c" "ws_readyState s (ws c) \<noteq> OPEN" for c
  proof -
    define msg where "msg = ''Connection in unexpected state: ''
         @ ready_state_code (ws_readyState (log TRACE ''Keepalive alarm fired'' s) (ws c))
         @ '', cleaning up''"
    define s1 where "s1 = (log WARN msg
         (log TRACE ''Keepalive alarm fired'' s))\<lparr>currentConnection := None\<rparr>"
    have tr1: "timers_tracked s1"
      unfolding s1_def by (intro tracked_slot_None tracked_log tr)
    have "ws_readyState (log TRACE ''Keepalive alarm fired'' s) (ws c) = ws_readyState s (ws c)"
      by (rule rs_frame) (simp add: log_def)
    with that have eq: "handleKeepaliveAlarm s
        = notify_connection_closed (stopKeepaliveAlarm (stopHeartbeat s1))"
      by (simp add: handleKeepaliveAlarm_def Let_def s1_def msg_def log_def)
    show ?thesis
      unfolding eq using stopHeartbeat_timers [OF tr1]
      by (simp add: notify_connection_closed_def runtime_sendMessage_def stopKeepaliveAlarm_def
            alarms_clear_def log_def stopHeartbeat_fields)
         (simp add: s1_def log_def)
  qed
  have healthy: "(handleKeepaliveAlarm s)\<lparr>logs := logs s\<rparr> = s"
    if "currentConnection s = Some c" "ws_readyState s (ws c) = OPEN" for c
  proof -
    have "ws_readyState (log TRACE ''Keepalive alarm fired'' s) (ws c) = ws_readyState s (ws c)"
      by (rule rs_frame) (simp add: log_def)
    with that show ?thesis by (simp add: handleKeepaliveAlarm_def Let_def log_def)
  qed
  from none later stale healthy show ?thesis unfolding s_def [symmetric] by blast
qed

theorem keepalive_firing_witness:
  "currentConnection (run [Connect ''sessionX'' 9001 42, WsOpen 0, InstanceDisconnect 0] init) = None \<and>
   alarms (run [Connect ''sessionX'' 9001 42, WsOpen 0, InstanceDisconnect 0] init)
     KEEPALIVE_ALARM_NAME = Some 24 \<and>
   alarms (run [Connect ''sessionY'' 9002 7]
       (handleKeepaliveAlarm (run [Connect ''sessionX'' 9001 42, WsOpen 0, InstanceDisconnect 0] init)))
     KEEPALIVE_ALARM_NAME = None \<and>
   ws_readyState (run [Connect ''sessionX'' 9001 42, WsOpen 0, TimerFire 1, TimerFire 2] init) 0
     = CLOSING \<and>
   currentConnection
     (handleKeepaliveAlarm (run [Connect ''sessionX'' 9001 42, WsOpen 0, TimerFire 1, TimerFire 2] init))
     = None \<and>
   runtime_messages
     (handleKeepaliveAlarm (run [Connect ''sessionX'' 9001 42, WsOpen 0, TimerFire 1, TimerFire 2] init))
     = [CONNECTION_CLOSED] \<and>
   ws_readyState (run [Connect ''sessionX'' 9001 42, WsOpen 0] init) 0 = OPEN \<and>
   (handleKeepaliveAlarm (run [Connect ''sessionX'' 9001 42, WsOpen 0] init))
      \<lparr>logs := logs (run [Connect ''sessionX'' 9001 42, WsOpen 0] init)\<rparr>
     = run [Connect ''sessionX'' 9001 42, WsOpen 0] init"
proof -
  have a1: "currentConnection (run [Connect ''sessionX'' 9001 42, WsOpen 0, InstanceDisconnect 0] init) = None"
    and a2: "alarms (run [Connect ''sessionX'' 9001 42, WsOpen 0, InstanceDisconnect 0] init)
     KEEPALIVE_ALARM_NAME = Some 24"
    by (simp_all add: eval_defs)
  have q: "no_open [Connect ''sessionY'' 9002 7]" by (simp add: no_open_def)
  from keepalive_firing [of "[Connect ''sessionX'' 9001 42, WsOpen 0, InstanceDisconnect 0]"] a1 q
  have a3: "alarms (run [Connect ''sessionY'' 9002 7]
       (handleKeepaliveAlarm (run [Connect ''sessionX'' 9001 42, WsOpen 0, InstanceDisconnect 0] init)))
     KEEPALIVE_ALARM_NAME = None" by blast
  have b1: "currentConnection (run [Connect ''sessionX'' 9001 42, WsOpen 0, TimerFire 1, TimerFire 2] init)
      = Some \<lparr>ws = 0, sessionName = ''sessionX'', port = 9001, tabId = Some 42\<rparr>"
    and b2: "ws_readyState (run [Connect ''sessionX'' 9001 42, WsOpen 0, TimerFire 1, TimerFire 2] init) 0
     = CLOSING"
    and b3: "runtime_messages (run [Connect ''sessionX'' 9001 42, WsOpen 0, TimerFire 1, TimerFire 2] init) = []"
    by (simp_all add: eval_defs)
  from b2 have b2': "ws_readyState (run [Connect ''sessionX'' 9001 42, WsOpen 0, TimerFire 1, TimerFire 2] init)
     (ws \<lparr>ws = 0, sessionName = ''sessionX'', port = 9001, tabId = Some 42\<rparr>) \<noteq> OPEN" by simp
  from keepalive_firing [of "[Connect ''sessionX'' 9001 42, WsOpen 0, TimerFire 1, TimerFire 2]"] b1 b2'
  have b4: "currentConnection
     (handleKeepaliveAlarm (run [Connect ''sessionX'' 9001 42, WsOpen 0, TimerFire 1, TimerFire 2] init))
     = None \<and>
     runtime_messages
     (handleKeepaliveAlarm (run [Connect ''sessionX'' 9001 42, WsOpen 0, TimerFire 1, TimerFire 2] init))
     = runtime_messages (run [Connect ''sessionX'' 9001 42, WsOpen 0, TimerFire 1, TimerFire 2] init) @ [CONNECTION_CLOSED]"
    by blast
  have c1: "currentConnection (run [Connect ''sessionX'' 9001 42, WsOpen 0] init)
      = Some \<lparr>ws = 0, sessionName = ''sessionX'', port = 9001, tabId = Some 42\<rparr>"
    and c2: "ws_readyState (run [Connect ''sessionX'' 9001 42, WsOpen 0] init) 0 = OPEN"
    by (simp_all add: eval_defs)
  from c2 have c2': "ws_readyState (run [Connect ''sessionX'' 9001 42, WsOpen 0] init)
     (ws \<lparr>ws = 0, sessionName = ''sessionX'', port = 9001, tabId = Some 42\<rparr>) = OPEN" by simp
  from keepalive_firing [of "[Connect ''sessionX'' 9001 42, WsOpen 0]"] c1 c2'
  have c3: "(handleKeepaliveAlarm (run [Connect ''sessionX'' 9001 42, WsOpen 0] init))
      \<lparr>logs := logs (run [Connect ''sessionX'' 9001 42, WsOpen 0] init)\<rparr>
     = run [Connect ''sessionX'' 9001 42, WsOpen 0] init" by blast
  from a1 a2 a3 b2 b4 b3 c2 c3 show ?thesis by (simp only: append_Nil simp_thms)
qed

subsection \<open>C5: the status reconciler's poll\<close>

lemmas ui_defs = ui_init_def ui_log_def stopStatusPolling_def handleConnectionClosed_def
  startStatusPolling_def poll_callback_def polling_def STATUS_POLL_INTERVAL_MS_def

text \<open>
  C5. For every poll result \<open>status\<close>: if the cached status says connected and \<open>status\<close>
  says not connected, that poll sets the cache to the disconnected status and stops
  polling (the timer handle is cleared and its interval is cancelled); in every other
  case the poll stores \<open>status\<close> as the new cache and changes nothing else.
\<close>

theorem poll_reconciles:
  "(connected (connectionStatus u) \<and> \<not> connected status \<longrightarrow>
      connectionStatus (poll_callback (Some status) u) = disconnected_status \<and>
      statusPollTimer (poll_callback (Some status) u) = None \<and>
      \<not> polling (poll_callback (Some status) u) \<and>
      (\<forall>t. statusPollTimer u = Some t \<longrightarrow> ui_intervals (poll_callback (Some status) u) t = None)) \<and>
   (\<not> (connected (connectionStatus u) \<and> \<not> connected status) \<longrightarrow>
      poll_callback (Some status) u = u\<lparr>connectionStatus := status\<rparr>)"
  by (cases "statusPollTimer u") (simp_all add: ui_defs)

theorem poll_reconciles_witness:
  "connectionStatus
     (poll_callback (Some disconnected_status)
        (startStatusPolling (ui_init\<lparr>connectionStatus :=
           \<lparr>connected = True, status_sessionName = Some ''sessionX'', status_tabId = Some 42\<rparr>\<rparr>)))
     = disconnected_status \<and>
   polling (startStatusPolling (ui_init\<lparr>connectionStatus :=
           \<lparr>connected = True, status_sessionName = Some ''sessionX'', status_tabId = Some 42\<rparr>\<rparr>)) \<and>
   \<not> polling
     (poll_callback (Some disconnected_status)
        (startStatusPolling (ui_init\<lparr>connectionStatus :=
           \<lparr>connected = True, status_sessionName = Some ''sessionX'', status_tabId = Some 42\<rparr>\<rparr>))) \<and>
   poll_callback (Some \<lparr>connected = True, status_sessionName = Some ''sessionX'', status_tabId = Some 43\<rparr>)
        (startStatusPolling (ui_init\<lparr>connectionStatus :=
           \<lparr>connected = True, status_sessionName = Some ''sessionX'', status_tabId = Some 42\<rparr>\<rparr>))
     = (startStatusPolling (ui_init\<lparr>connectionStatus :=
           \<lparr>connected = True, status_sessionName = Some ''sessionX'', status_tabId = Some 42\<rparr>\<rparr>))
        \<lparr>connectionStatus :=
           \<lparr>connected = True, status_sessionName = Some ''sessionX'', status_tabId = Some 43\<rparr>\<rparr>"
proof -
  let ?u = "startStatusPolling (ui_init\<lparr>connectionStatus :=
           \<lparr>connected = True, status_sessionName = Some ''sessionX'', status_tabId = Some 42\<rparr>\<rparr>)"
  have c: "connected (connectionStatus ?u)" by (simp add: ui_defs)
  have d: "\<not> connected disconnected_status" by (simp add: disconnected_status_def)
  have p: "polling ?u" by (simp add: ui_defs)
  have e: "connected \<lparr>connected = True, status_sessionName = Some ''sessionX'', status_tabId = Some 43\<rparr>"
    by simp
  from poll_reconciles [of ?u disconnected_status] c d
  have 1: "connectionStatus (poll_callback (Some disconnected_status) ?u) = disconnected_status \<and>
      \<not> polling (poll_callback (Some disconnected_status) ?u)" by blast
  from poll_reconciles [of ?u "\<lparr>connected = True, status_sessionName = Some ''sessionX'', status_tabId = Some 43\<rparr>"] e
  have 2: "poll_callback (Some \<lparr>connected = True, status_sessionName = Some ''sessionX'', status_tabId = Some 43\<rparr>) ?u
     = ?u\<lparr>connectionStatus := \<lparr>connected = True, status_sessionName = Some ''sessionX'', status_tabId = Some 43\<rparr>\<rparr>"
    by blast
  from 1 2 p show ?thesis by blast
qed

subsection \<open>C6: routing of inbound frames\<close>

lemma handlePong_fields:
  "heartbeatTimeout (handlePong s) = None"
  "heartbeatInterval (handlePong s) = heartbeatInterval s"
  "tool_requests (handlePong s) = tool_requests s"
  "currentConnection (handlePong s) = currentConnection s"
  "sockets (handlePong s) = sockets s"
  "alarms (handlePong s) = alarms s"
  "uncaught (handlePong s) = uncaught s"
  by (simp_all add: handlePong_def clearTimeout_def log_def split: option.split)

lemma handlePong_clears: "heartbeatTimeout s = Some t \<Longrightarrow> timers (handlePong s) t = None"
  by (simp add: handlePong_def clearTimeout_def log_def)

lemma ws_sent_send:
  "ws_readyState s w = OPEN \<Longrightarrow>
   \<exists>s'. ws_send w d s = Inr s' \<and> ws_sent s' w = ws_sent s w @ [d] \<and>
        (\<forall>w'. ws_readyState s' w' = ws_readyState s w')"
  using rs_in_range [of s w]
  by (simp add: ws_send_def ws_sent_def rs_keep) (simp add: raw_socket)

lemma get_prop_throws: "get_prop m name = Inl e \<longleftrightarrow> m = JNull \<and> e = TypeError"
  by (cases m) auto

text \<open>
  C6, as stated, fails: there are frames that parse, are not pongs, and are not
  forwarded. For the frame \<open>null\<close> reading \<open>message.type\<close> throws; for a frame whose
  \<open>type\<close> is an object with a \<open>toString\<close> property, such as
  \<open>{"id":1,"type":{"toString":1}}\<close>, the log line that interpolates \<open>request.type\<close>
  throws. Both exceptions are raised inside the \<open>try\<close> before the dispatcher is called:
  the \<open>catch\<close> logs, and the frame is dropped.
\<close>

theorem null_frame_not_dispatched:
  "tool_requests
     (step (WsMessage 0 (Some JNull)) (run [Connect ''sessionX'' 9001 42, WsOpen 0] init)) = [] \<and>
   logs (step (WsMessage 0 (Some JNull)) (run [Connect ''sessionX'' 9001 42, WsOpen 0] init))
     = logs (run [Connect ''sessionX'' 9001 42, WsOpen 0] init)
         @ [(ERROR, ''Error handling WebSocket message:'')] \<and>
   tool_requests
     (step (WsMessage 0 (Some (JObj [(''id'', JNum 1),
                                      (''type'', JObj [(''toString'', JNum 1)])])))
        (run [Connect ''sessionX'' 9001 42, WsOpen 0] init)) = [] \<and>
   logs
     (step (WsMessage 0 (Some (JObj [(''id'', JNum 1),
                                      (''type'', JObj [(''toString'', JNum 1)])])))
        (run [Connect ''sessionX'' 9001 42, WsOpen 0] init))
     = logs (run [Connect ''sessionX'' 9001 42, WsOpen 0] init)
         @ [(ERROR, ''Error handling WebSocket message:'')]"
  by (simp add: eval_defs)

text \<open>
  C6, amended. For every invocation of \<open>ws.onmessage\<close>, in any state, exactly one
  of three things happens.
  \<^item> A frame whose \<open>type\<close> is the string \<open>pong\<close> does what \<open>handlePong\<close> does: the pending
    pong timeout is cancelled (its handle is cleared and the timer can no longer fire),
    nothing is handed to the dispatcher, slot and sockets are unchanged.
  \<^item> Every other frame that parses to a value other than \<open>null\<close> and whose \<open>type\<close> can
    be converted to a string for the log line (\<open>template_throws\<close> is false: it is not an
    object with a \<open>toString\<close> property, nor an array holding one) is handed to the
    dispatcher together with \<open>live_tab\<close>, the tab identifier of the connection in the slot
    (none when the slot is empty; an identifier of 0 counts as none); slot, sockets and
    timers are unchanged. When the dispatcher answers with a response and the handler's
    socket is OPEN, the response is sent on that socket and no ready state changes.
  \<^item> A frame that does not parse, parses to \<open>null\<close>, or has a \<open>type\<close> that cannot be
    converted to a string is logged and dropped: the state changes in the log only, so
    no socket is closed and the slot is unchanged.
\<close>

theorem message_routing:
  "(\<forall>m. get_prop m ''type'' = Inr (Some (JStr ''pong'')) \<longrightarrow>
      ws_onmessage (Some m) s = handlePong s \<and>
      heartbeatTimeout (ws_onmessage (Some m) s) = None \<and>
      (\<forall>t. heartbeatTimeout s = Some t \<longrightarrow>
         timers (ws_onmessage (Some m) s) t = None \<and>
         step (TimerFire t) (ws_onmessage (Some m) s) = ws_onmessage (Some m) s) \<and>
      tool_requests (ws_onmessage (Some m) s) = tool_requests s \<and>
      currentConnection (ws_onmessage (Some m) s) = currentConnection s \<and>
      sockets (ws_onmessage (Some m) s) = sockets s) \<and>
   (\<forall>m ty. get_prop m ''type'' = Inr ty \<and> ty \<noteq> Some (JStr ''pong'') \<and> \<not> template_throws ty \<longrightarrow>
      tool_requests (ws_onmessage (Some m) s) = tool_requests s @ [(m, live_tab s)] \<and>
      currentConnection (ws_onmessage (Some m) s) = currentConnection s \<and>
      sockets (ws_onmessage (Some m) s) = sockets s \<and>
      timers (ws_onmessage (Some m) s) = timers s) \<and>
   (currentConnection s = None \<longrightarrow> live_tab s = None) \<and>
   (\<forall>c. currentConnection s = Some c \<longrightarrow>
      live_tab s = (if tabId c = Some 0 then None else tabId c)) \<and>
   (\<forall>request r. ws_readyState s w = OPEN \<longrightarrow>
      ws_sent (ws_onmessage_resume w request (Inr r) s) w = ws_sent s w @ [r] \<and>
      currentConnection (ws_onmessage_resume w request (Inr r) s) = currentConnection s \<and>
      (\<forall>w'. ws_readyState (ws_onmessage_resume w request (Inr r) s) w' = ws_readyState s w')) \<and>
   (\<forall>data. data = None \<or> data = Some JNull \<or>
           (\<exists>m ty. data = Some m \<and> get_prop m ''type'' = Inr ty \<and>
                   ty \<noteq> Some (JStr ''pong'') \<and> template_throws ty) \<longrightarrow>
      ws_onmessage data s = log ERROR ''Error handling WebSocket message:'' s \<and>
      tool_requests (ws_onmessage data s) = tool_requests s \<and>
      currentConnection (ws_onmessage data s) = currentConnection s \<and>
      sockets (ws_onmessage data s) = sockets s)"
proof -
  have pong: "ws_onmessage (Some m) s = handlePong s"
    if "get_prop m ''type'' = Inr (Some (JStr ''pong''))" for m
    using that by (simp add: ws_onmessage_def onmessage_try_def)
  have fire: "step (TimerFire t) (handlePong s) = handlePong s" if "heartbeatTimeout s = Some t" for t
    using handlePong_clears [OF that] by (simp add: fire_timer_def)
  have tool: "ws_onmessage (Some m) s
      = handleToolRequest_call m (live_tab s) (log DEBUG ''Tool request received: '' s)"
    if "get_prop m ''type'' = Inr ty" "ty \<noteq> Some (JStr ''pong'')" "\<not> template_throws ty" for m ty
    using that by (simp add: ws_onmessage_def onmessage_try_def)
  have tab: "live_tab s = (if tabId c = Some 0 then None else tabId c)"
    if "currentConnection s = Some c" for c
    using that by (cases "tabId c") (simp_all add: live_tab_def)
  have resp: "ws_sent (ws_onmessage_resume w request (Inr r) s) w = ws_sent s w @ [r] \<and>
      currentConnection (ws_onmessage_resume w request (Inr r) s) = currentConnection s \<and>
      (\<forall>w'. ws_readyState (ws_onmessage_resume w request (Inr r) s) w' = ws_readyState s w')"
    if "ws_readyState s w = OPEN" for request r
  proof -
    from ws_sent_send [OF that, of r] obtain s' where
      s': "ws_send w r s = Inr s'" "ws_sent s' w = ws_sent s w @ [r]"
      "\<forall>w'. ws_readyState s' w' = ws_readyState s w'" by blast
    have "\<exists>lvl msg. ws_onmessage_resume w request (Inr r) s = log lvl msg s'"
      using s'(1) by (auto simp: ws_onmessage_resume_def split: sum.split)
    then obtain lvl msg where eq: "ws_onmessage_resume w request (Inr r) s = log lvl msg s'"
      by blast
    have "ws_sent (log lvl msg s') w = ws_sent s' w"
      by (simp add: ws_sent_def socket_at_def log_def)
    moreover have "ws_readyState (log lvl msg s') w' = ws_readyState s' w'" for w'
      by (rule rs_frame) (simp add: log_def)
    moreover have "currentConnection (log lvl msg s') = currentConnection s"
      using ws_send_fields(5) [OF s'(1)] by (simp add: log_def)
    ultimately show ?thesis using s' unfolding eq by simp
  qed
  have drop: "ws_onmessage data s = log ERROR ''Error handling WebSocket message:'' s"
    if "data = None \<or> data = Some JNull \<or>
           (\<exists>m ty. data = Some m \<and> get_prop m ''type'' = Inr ty \<and>
                   ty \<noteq> Some (JStr ''pong'') \<and> template_throws ty)" for data
    using that by (auto simp: ws_onmessage_def onmessage_try_def)
  show ?thesis
  proof (intro conjI allI impI)
    fix data assume "data = None \<or> data = Some JNull \<or>
           (\<exists>m ty. data = Some m \<and> get_prop m ''type'' = Inr ty \<and>
                   ty \<noteq> Some (JStr ''pong'') \<and> template_throws ty)"
    from drop [OF this]
    show "ws_onmessage data s = log ERROR ''Error handling WebSocket message:'' s"
      "tool_requests (ws_onmessage data s) = tool_requests s"
      "currentConnection (ws_onmessage data s) = currentConnection s"
      "sockets (ws_onmessage data s) = sockets s"
      by (simp_all add: log_def)
  next
    fix m ty
    assume "get_prop m ''type'' = Inr ty \<and> ty \<noteq> Some (JStr ''pong'') \<and> \<not> template_throws ty"
    then have eq: "ws_onmessage (Some m) s
      = handleToolRequest_call m (live_tab s) (log DEBUG ''Tool request received: '' s)"
      using tool by blast
    show "tool_requests (ws_onmessage (Some m) s) = tool_requests s @ [(m, live_tab s)]"
      "currentConnection (ws_onmessage (Some m) s) = currentConnection s"
      "sockets (ws_onmessage (Some m) s) = sockets s"
      "timers (ws_onmessage (Some m) s) = timers s"
      unfolding eq by (simp_all add: handleToolRequest_call_def log_def)
  qed (use pong fire handlePong_clears tab resp in
        \<open>simp_all add: handlePong_fields live_tab_def\<close>)
qed

lemma status_cong:
  "currentConnection s' = currentConnection s \<Longrightarrow> sockets s' = sockets s \<Longrightarrow>
   getConnectionStatus s' = getConnectionStatus s"
  by (simp add: getConnectionStatus_def rs_frame [of s' s] split: option.split)

text \<open>The instances include Scenario B: the unknown frame \<open>{"type":"ping-missing-pong"}\<close>
  is handed to the dispatcher with the live tab identifier and the connection stays
  open.\<close>

theorem message_routing_witness:
  "heartbeatTimeout (run [Connect ''sessionX'' 9001 42, WsOpen 0, TimerFire 1] init) = Some 2 \<and>
   heartbeatTimeout
     (ws_onmessage (Some (JObj [(''type'', JStr ''pong'')]))
        (run [Connect ''sessionX'' 9001 42, WsOpen 0, TimerFire 1] init)) = None \<and>
   timers
     (ws_onmessage (Some (JObj [(''type'', JStr ''pong'')]))
        (run [Connect ''sessionX'' 9001 42, WsOpen 0, TimerFire 1] init)) 2 = None \<and>
   tool_requests
     (ws_onmessage (Some (JObj [(''type'', JStr ''ping-missing-pong'')]))
        (run [Connect ''sessionX'' 9001 42, WsOpen 0, TimerFire 1] init))
     = [(JObj [(''type'', JStr ''ping-missing-pong'')], Some 42)] \<and>
   getConnectionStatus
     (ws_onmessage (Some (JObj [(''type'', JStr ''ping-missing-pong'')]))
        (run [Connect ''sessionX'' 9001 42, WsOpen 0, TimerFire 1] init))
     = \<lparr>connected = True, status_sessionName = Some ''sessionX'', status_tabId = Some 42\<rparr> \<and>
   ws_sent
     (ws_onmessage_resume 0 (JObj [(''type'', JStr ''ping-missing-pong'')])
        (Inr (JObj [(''id'', JNum 1)]))
        (run [Connect ''sessionX'' 9001 42, WsOpen 0, TimerFire 1] init)) 0
     = [ping_frame, JObj [(''id'', JNum 1)]] \<and>
   ws_onmessage None (run [Connect ''sessionX'' 9001 42, WsOpen 0, TimerFire 1] init)
     = log ERROR ''Error handling WebSocket message:''
         (run [Connect ''sessionX'' 9001 42, WsOpen 0, TimerFire 1] init) \<and>
   ws_onmessage (Some (JObj [(''type'', JArr [JObj [(''toString'', JNull)]])]))
       (run [Connect ''sessionX'' 9001 42, WsOpen 0, TimerFire 1] init)
     = log ERROR ''Error handling WebSocket message:''
         (run [Connect ''sessionX'' 9001 42, WsOpen 0, TimerFire 1] init) \<and>
   currentConnection init = None \<and> live_tab init = None"
proof -
  let ?s = "run [Connect ''sessionX'' 9001 42, WsOpen 0, TimerFire 1] init"
  note th = message_routing [of ?s 0]
  have h: "heartbeatTimeout ?s = Some 2"
    and o: "ws_readyState ?s 0 = OPEN"
    and c: "currentConnection ?s
       = Some \<lparr>ws = 0, sessionName = ''sessionX'', port = 9001, tabId = Some 42\<rparr>"
    and sn: "ws_sent ?s 0 = [ping_frame]"
    and tr: "tool_requests ?s = []"
    by (simp_all add: eval_defs ws_sent_def)
  have p: "get_prop (JObj [(''type'', JStr ''pong'')]) ''type'' = Inr (Some (JStr ''pong''))"
    by simp
  have u: "get_prop (JObj [(''type'', JStr ''ping-missing-pong'')]) ''type''
       = Inr (Some (JStr ''ping-missing-pong'')) \<and>
     Some (JStr ''ping-missing-pong'') \<noteq> Some (JStr ''pong'') \<and>
     \<not> template_throws (Some (JStr ''ping-missing-pong''))"
    by (simp add: template_throws_def)
  have b: "\<exists>m ty. Some (JObj [(''type'', JArr [JObj [(''toString'', JNull)]])]) = Some m \<and>
       get_prop m ''type'' = Inr ty \<and> ty \<noteq> Some (JStr ''pong'') \<and> template_throws ty"
    by (simp add: template_throws_def)
  from th p h have 1: "heartbeatTimeout (ws_onmessage (Some (JObj [(''type'', JStr ''pong'')])) ?s) = None \<and>
     timers (ws_onmessage (Some (JObj [(''type'', JStr ''pong'')])) ?s) 2 = None"
    by blast
  from th c have lt: "live_tab ?s = Some 42" by simp
  from th u have 2: "tool_requests (ws_onmessage (Some (JObj [(''type'', JStr ''ping-missing-pong'')])) ?s)
       = tool_requests ?s @ [(JObj [(''type'', JStr ''ping-missing-pong'')], live_tab ?s)] \<and>
     currentConnection (ws_onmessage (Some (JObj [(''type'', JStr ''ping-missing-pong'')])) ?s)
       = currentConnection ?s \<and>
     sockets (ws_onmessage (Some (JObj [(''type'', JStr ''ping-missing-pong'')])) ?s) = sockets ?s"
    by blast
  then have 3: "getConnectionStatus (ws_onmessage (Some (JObj [(''type'', JStr ''ping-missing-pong'')])) ?s)
     = getConnectionStatus ?s"
    by (intro status_cong) blast+
  have 4: "getConnectionStatus ?s
     = \<lparr>connected = True, status_sessionName = Some ''sessionX'', status_tabId = Some 42\<rparr>"
    by (simp add: eval_defs)
  from th o have 5: "ws_sent (ws_onmessage_resume 0 (JObj [(''type'', JStr ''ping-missing-pong'')])
        (Inr (JObj [(''id'', JNum 1)])) ?s) 0
     = ws_sent ?s 0 @ [JObj [(''id'', JNum 1)]]" by blast
  from th have 6: "ws_onmessage None ?s = log ERROR ''Error handling WebSocket message:'' ?s"
    by blast
  from th b have 8: "ws_onmessage (Some (JObj [(''type'', JArr [JObj [(''toString'', JNull)]])])) ?s
     = log ERROR ''Error handling WebSocket message:'' ?s"
    by blast
  have e: "currentConnection init = None" by (simp add: init_def)
  from message_routing [of init 0] e have 7: "live_tab init = None" by blast
  from h 1 2 3 4 5 6 7 8 e lt sn tr show ?thesis
    by (simp only: append_Nil append_Cons simp_thms)
qed

subsection \<open>C7: disconnect\<close>

lemma teardown_status:
  "getConnectionStatus ((ws_close w (stopKeepaliveAlarm (stopHeartbeat s)))\<lparr>currentConnection := None\<rparr>)
     = disconnected_status"
  by (simp add: getConnectionStatus_def)

text \<open>
  C7. \<open>disconnectSession\<close> is a total state transformer built from operations that
  cannot throw (\<open>clearInterval\<close>, \<open>clearTimeout\<close>, \<open>chrome.alarms.clear\<close>, \<open>ws.close()\<close>).
  With an empty slot it returns the state unchanged; after any call the status is the
  disconnected one; a second call changes nothing more; nothing reaches the host as an
  uncaught exception.
\<close>

theorem disconnect_idempotent:
  "(currentConnection s = None \<longrightarrow> disconnectSession s = s) \<and>
   getConnectionStatus (disconnectSession s)
     = \<lparr>connected = False, status_sessionName = None, status_tabId = None\<rparr> \<and>
   disconnectSession (disconnectSession s) = disconnectSession s \<and>
   uncaught (disconnectSession s) = uncaught s"
proof (cases "currentConnection s")
  case None
  then show ?thesis
    by (simp add: disconnectSession_def getConnectionStatus_def disconnected_status_def)
next
  case (Some c)
  then have eq: "disconnectSession s =
      (ws_close (ws c) (stopKeepaliveAlarm (stopHeartbeat s)))\<lparr>currentConnection := None\<rparr>"
    by (simp add: disconnectSession_def)
  have "currentConnection (disconnectSession s) = None" unfolding eq by simp
  then have "disconnectSession (disconnectSession s) = disconnectSession s"
    by (simp add: disconnectSession_def)
  moreover have "uncaught (disconnectSession s) = uncaught s"
    unfolding eq
    by (simp add: ws_close_fields stopKeepaliveAlarm_def alarms_clear_def log_def stopHeartbeat_fields)
  moreover have "getConnectionStatus (disconnectSession s) = disconnected_status"
    unfolding eq by (rule teardown_status)
  ultimately show ?thesis using Some by (simp add: disconnected_status_def)
qed

theorem disconnect_idempotent_witness:
  "currentConnection init = None \<and> disconnectSession init = init \<and>
   getConnectionStatus (disconnectSession init)
     = \<lparr>connected = False, status_sessionName = None, status_tabId = None\<rparr> \<and>
   getConnectionStatus
     (disconnectSession (run [Connect ''sessionX'' 9001 42, WsOpen 0] init))
     = \<lparr>connected = False, status_sessionName = None, status_tabId = None\<rparr>"
proof -
  have n: "currentConnection init = None" by (simp add: init_def)
  from disconnect_idempotent [of init] n
    disconnect_idempotent [of "run [Connect ''sessionX'' 9001 42, WsOpen 0] init"]
  show ?thesis by blast
qed

subsection \<open>C8: the status surface\<close>

lemma teardown_length:
  "length (sockets ((ws_close w (stopKeepaliveAlarm (stopHeartbeat s)))\<lparr>currentConnection := None\<rparr>))
     = length (sockets s)"
  by (simp add: ws_close_def update_socket_def socket_at_def ws_readyState_def
        stopKeepaliveAlarm_def alarms_clear_def log_def stopHeartbeat_fields
        split: ready_state.split)

lemma connect_new_socket:
  "p \<le> 65535 \<Longrightarrow>
   socket_at (connectToSession name p tab s) (length (sockets s))
     = Some \<lparr> readyState = CONNECTING, url_port = p, sent = [], env_sessionName = name,
           env_port = p, env_tabId = tab, promise = Pending \<rparr>"
proof (cases "currentConnection s")
  case None
  then show ?thesis if "p \<le> 65535"
    using that by (simp add: connectToSession_def new_WebSocket_def socket_at_new)
next
  case (Some c)
  then show ?thesis if "p \<le> 65535"
    using that teardown_length [of "ws c" s]
    by (simp add: connectToSession_def new_WebSocket_def socket_at_new Let_def)
qed

lemma onopen_result:
  assumes "socket_at s w = Some k"
  shows "currentConnection (ws_onopen w s)
           = Some \<lparr>ws = w, sessionName = env_sessionName k, port = env_port k,
                   tabId = Some (env_tabId k)\<rparr>"
    and "ws_readyState (ws_onopen w s) w = readyState k"
    and "alarms (ws_onopen w s) KEEPALIVE_ALARM_NAME = Some KEEPALIVE_INTERVAL_SECONDS"
    and "heartbeatInterval (ws_onopen w s) = Some (next_timer s)"
    and "timers (ws_onopen w s) (next_timer s)
           = Some \<lparr>repeating = True, delay_ms = HEARTBEAT_INTERVAL_MS, callback = HeartbeatCycle w\<rparr>"
    and "tab_queries (ws_onopen w s) = tab_queries s @ [(env_tabId k, w)]"
    and "map_option promise (socket_at (ws_onopen w s) w)
           = Some (if promise k = Pending then Resolved else promise k)"
    and "ws_sent (ws_onopen w s) w = sent k"
    and "map_option env_tabId (socket_at (ws_onopen w s) w) = Some (env_tabId k)"
proof -
  define s4 where "s4 = tabs_get (env_tabId k) w (startHeartbeat w (startKeepaliveAlarm
     (s\<lparr>currentConnection := Some \<lparr>ws = w, sessionName = env_sessionName k, port = env_port k,
                             tabId = Some (env_tabId k)\<rparr>\<rparr>)))"
  have eq: "ws_onopen w s = resolve w s4"
    using assms by (simp add: ws_onopen_def Let_def s4_def)
  have sock: "sockets s4 = sockets s"
    by (simp add: s4_def tabs_get_def startHeartbeat_def Let_def setInterval_def log_def
          stopHeartbeat_fields startKeepaliveAlarm_def alarms_create_def)
  from socket_at_frame [OF this] have at: "socket_at s4 w = Some k" using assms by simp
  show "currentConnection (ws_onopen w s)
           = Some \<lparr>ws = w, sessionName = env_sessionName k, port = env_port k,
                   tabId = Some (env_tabId k)\<rparr>"
    unfolding eq resolve_def
    by (simp add: update_socket_fields)
       (simp add: s4_def tabs_get_def startHeartbeat_def Let_def setInterval_def log_def
          stopHeartbeat_fields startKeepaliveAlarm_def alarms_create_def)
  show "ws_readyState (ws_onopen w s) w = readyState k"
    unfolding eq resolve_def using at by (simp add: ws_readyState_def socket_at_update)
  show "alarms (ws_onopen w s) KEEPALIVE_ALARM_NAME = Some KEEPALIVE_INTERVAL_SECONDS"
    unfolding eq resolve_def
    by (simp add: update_socket_fields)
       (simp add: s4_def tabs_get_def startHeartbeat_def Let_def setInterval_def log_def
          stopHeartbeat_fields startKeepaliveAlarm_def alarms_create_def)
  show "heartbeatInterval (ws_onopen w s) = Some (next_timer s)"
    unfolding eq resolve_def
    by (simp add: update_socket_fields)
       (simp add: s4_def tabs_get_def startHeartbeat_def Let_def setInterval_def log_def
          stopHeartbeat_fields startKeepaliveAlarm_def alarms_create_def)
  show "timers (ws_onopen w s) (next_timer s)
           = Some \<lparr>repeating = True, delay_ms = HEARTBEAT_INTERVAL_MS, callback = HeartbeatCycle w\<rparr>"
    unfolding eq resolve_def
    by (simp add: update_socket_fields)
       (simp add: s4_def tabs_get_def startHeartbeat_def Let_def setInterval_def log_def
          stopHeartbeat_fields startKeepaliveAlarm_def alarms_create_def)
  show "tab_queries (ws_onopen w s) = tab_queries s @ [(env_tabId k, w)]"
    unfolding eq resolve_def
    by (simp add: update_socket_fields)
       (simp add: s4_def tabs_get_def startHeartbeat_def Let_def setInterval_def log_def
          stopHeartbeat_fields startKeepaliveAlarm_def alarms_create_def)
  show "map_option promise (socket_at (ws_onopen w s) w)
           = Some (if promise k = Pending then Resolved else promise k)"
    unfolding eq resolve_def using at by (simp add: socket_at_update)
  show "ws_sent (ws_onopen w s) w = sent k"
    unfolding eq resolve_def ws_sent_def using at by (simp add: socket_at_update)
  show "map_option env_tabId (socket_at (ws_onopen w s) w) = Some (env_tabId k)"
    unfolding eq resolve_def using at by (simp add: socket_at_update)
qed

lemma connect_then_open:
  "p \<le> 65535 \<Longrightarrow>
   step (WsOpen (length (sockets s))) (connectToSession name p tab s)
     = ws_onopen (length (sockets s))
         (update_socket (length (sockets s)) (\<lambda>k. k\<lparr>readyState := OPEN\<rparr>)
            (connectToSession name p tab s))"
  "p \<le> 65535 \<Longrightarrow>
   socket_at (update_socket (length (sockets s)) (\<lambda>k. k\<lparr>readyState := OPEN\<rparr>)
            (connectToSession name p tab s)) (length (sockets s))
     = Some \<lparr> readyState = OPEN, url_port = p, sent = [], env_sessionName = name,
           env_port = p, env_tabId = tab, promise = Pending \<rparr>"
  by (simp_all add: ws_readyState_def connect_new_socket socket_at_update)

text \<open>
  C8. \<open>getConnectionStatus\<close> returns the disconnected status when the slot is empty and
  when the slot's socket is not OPEN, and otherwise the session and tab of the connection
  in the slot. Scenario A, from any state: after \<open>connect("sessionX", 9001, 42)\<close> and the
  open event of the socket it created, the connect promise is resolved and the status is
  \<open>{connected:true, sessionName:"sessionX", tabId:42}\<close>.
\<close>

theorem status_reflects_connection:
  "(currentConnection s = None \<longrightarrow>
      getConnectionStatus s
        = \<lparr>connected = False, status_sessionName = None, status_tabId = None\<rparr>) \<and>
   (\<forall>c. currentConnection s = Some c \<and> ws_readyState s (ws c) \<noteq> OPEN \<longrightarrow>
      getConnectionStatus s
        = \<lparr>connected = False, status_sessionName = None, status_tabId = None\<rparr>) \<and>
   (\<forall>c. currentConnection s = Some c \<and> ws_readyState s (ws c) = OPEN \<longrightarrow>
      getConnectionStatus s
        = \<lparr>connected = True, status_sessionName = Some (sessionName c), status_tabId = tabId c\<rparr>) \<and>
   map_option promise
     (socket_at (run [Connect ''sessionX'' 9001 42, WsOpen (length (sockets s))] s)
        (length (sockets s))) = Some Resolved \<and>
   getConnectionStatus (run [Connect ''sessionX'' 9001 42, WsOpen (length (sockets s))] s)
     = \<lparr>connected = True, status_sessionName = Some ''sessionX'', status_tabId = Some 42\<rparr>"
proof -
  have le: "(9001::nat) \<le> 65535" by simp
  note o = onopen_result [OF connect_then_open(2) [where s = s and name = "''sessionX''" and tab = 42, OF le]]
  have r: "run [Connect ''sessionX'' 9001 42, WsOpen (length (sockets s))] s
      = ws_onopen (length (sockets s))
         (update_socket (length (sockets s)) (\<lambda>k. k\<lparr>readyState := OPEN\<rparr>)
            (connectToSession ''sessionX'' 9001 42 s))"
    by (simp only: run.simps step.simps(1) connect_then_open(1) [OF le])
  have "getConnectionStatus (run [Connect ''sessionX'' 9001 42, WsOpen (length (sockets s))] s)
     = \<lparr>connected = True, status_sessionName = Some ''sessionX'', status_tabId = Some 42\<rparr>"
    unfolding r using o(1,2) by (simp add: getConnectionStatus_def)
  moreover have "map_option promise
     (socket_at (run [Connect ''sessionX'' 9001 42, WsOpen (length (sockets s))] s)
        (length (sockets s))) = Some Resolved"
    unfolding r using o(7) by simp
  ultimately show ?thesis
    by (simp add: getConnectionStatus_def disconnected_status_def)
qed

theorem status_reflects_connection_witness:
  "getConnectionStatus init
     = \<lparr>connected = False, status_sessionName = None, status_tabId = None\<rparr> \<and>
   getConnectionStatus (run [Connect ''sessionX'' 9001 42, WsOpen 0] init)
     = \<lparr>connected = True, status_sessionName = Some ''sessionX'', status_tabId = Some 42\<rparr> \<and>
   getConnectionStatus (run [Connect ''sessionX'' 9001 42, WsOpen 0, TimerFire 1, TimerFire 2] init)
     = \<lparr>connected = False, status_sessionName = None, status_tabId = None\<rparr> \<and>
   getConnectionStatus (run [Connect ''sessionX'' 9001 42, WsOpen 0, UpdateTab 43] init)
     = \<lparr>connected = True, status_sessionName = Some ''sessionX'', status_tabId = Some 43\<rparr>"
proof -
  have a: "currentConnection init = None" and l: "length (sockets init) = 0"
    by (simp_all add: init_def)
  have b: "currentConnection (run [Connect ''sessionX'' 9001 42, WsOpen 0, TimerFire 1, TimerFire 2] init)
      = Some \<lparr>ws = 0, sessionName = ''sessionX'', port = 9001, tabId = Some 42\<rparr>"
    "ws_readyState (run [Connect ''sessionX'' 9001 42, WsOpen 0, TimerFire 1, TimerFire 2] init)
      (ws \<lparr>ws = 0, sessionName = ''sessionX'', port = 9001, tabId = Some 42\<rparr>) \<noteq> OPEN"
    by (simp_all add: eval_defs)
  have c: "currentConnection (run [Connect ''sessionX'' 9001 42, WsOpen 0, UpdateTab 43] init)
      = Some \<lparr>ws = 0, sessionName = ''sessionX'', port = 9001, tabId = Some 43\<rparr>"
    "ws_readyState (run [Connect ''sessionX'' 9001 42, WsOpen 0, UpdateTab 43] init)
      (ws \<lparr>ws = 0, sessionName = ''sessionX'', port = 9001, tabId = Some 43\<rparr>) = OPEN"
    by (simp_all add: eval_defs)
  from status_reflects_connection [of init] a l
  have 1: "getConnectionStatus init
     = \<lparr>connected = False, status_sessionName = None, status_tabId = None\<rparr>"
    and 2: "getConnectionStatus (run [Connect ''sessionX'' 9001 42, WsOpen 0] init)
     = \<lparr>connected = True, status_sessionName = Some ''sessionX'', status_tabId = Some 42\<rparr>"
    by (metis)+
  from status_reflects_connection
         [of "run [Connect ''sessionX'' 9001 42, WsOpen 0, TimerFire 1, TimerFire 2] init"] b
  have 3: "getConnectionStatus (run [Connect ''sessionX'' 9001 42, WsOpen 0, TimerFire 1, TimerFire 2] init)
     = \<lparr>connected = False, status_sessionName = None, status_tabId = None\<rparr>"
    by blast
  have sel: "sessionName \<lparr>ws = 0, sessionName = ''sessionX'', port = 9001, tabId = Some 43\<rparr> = ''sessionX''"
    "tabId \<lparr>ws = 0, sessionName = ''sessionX'', port = 9001, tabId = Some 43\<rparr> = Some 43"
    by simp_all
  from status_reflects_connection
         [of "run [Connect ''sessionX'' 9001 42, WsOpen 0, UpdateTab 43] init"] c
  have "getConnectionStatus (run [Connect ''sessionX'' 9001 42, WsOpen 0, UpdateTab 43] init)
     = \<lparr>connected = True,
         status_sessionName = Some (sessionName \<lparr>ws = 0, sessionName = ''sessionX'', port = 9001, tabId = Some 43\<rparr>),
         status_tabId = tabId \<lparr>ws = 0, sessionName = ''sessionX'', port = 9001, tabId = Some 43\<rparr>\<rparr>"
    by blast
  then have 4: "getConnectionStatus (run [Connect ''sessionX'' 9001 42, WsOpen 0, UpdateTab 43] init)
     = \<lparr>connected = True, status_sessionName = Some ''sessionX'', status_tabId = Some 43\<rparr>"
    by (simp only: sel)
  from 1 2 3 4 show ?thesis by blast
qed

subsection \<open>C9: the initial status message\<close>

lemma sendStatus_open:
  assumes "socket_at s w = Some k" "readyState k = OPEN"
  shows "ws_sent (instance_sendStatusUpdate w tab s) w = sent k @ [status_frame tab]"
proof -
  from assms have o: "ws_readyState s w = OPEN" by (simp add: ws_readyState_def)
  from ws_sent_send [OF o, of "status_frame tab"] obtain s' where
    "ws_send w (status_frame tab) s = Inr s'" "ws_sent s' w = ws_sent s w @ [status_frame tab]"
    by blast
  with o assms show ?thesis by (simp add: instance_sendStatusUpdate_def ws_sent_def)
qed

text \<open>
  C9, as stated, fails: when the tab-info collaborator hands back no tab, the connect has
  succeeded (the promise is resolved, the socket is open, the tab was queried) and no
  status message is sent.
\<close>

theorem no_tab_no_status_message:
  "map_option promise
     (socket_at (run [Connect ''sessionX'' 9001 42, WsOpen 0, TabsGetDone 0 None] init) 0)
     = Some Resolved \<and>
   ws_readyState (run [Connect ''sessionX'' 9001 42, WsOpen 0, TabsGetDone 0 None] init) 0 = OPEN \<and>
   tab_queries (run [Connect ''sessionX'' 9001 42, WsOpen 0, TabsGetDone 0 None] init) = [(42, 0)] \<and>
   ws_sent (run [Connect ''sessionX'' 9001 42, WsOpen 0, TabsGetDone 0 None] init) 0 = []"
  by (simp add: eval_defs ws_sent_def)

text \<open>
  C9, amended. On every transport-open (the open event of a CONNECTING socket) the
  tab-info collaborator is asked for the tab of the \<open>connect\<close> call. When it answers with
  a tab, an \<open>EXTENSION_STATUS\<close> message carrying that tab identifier and the tab's title
  and url is sent on the socket, where a title or url that is missing or empty is
  replaced by \<open>Unknown\<close>. When it answers with no tab, or when the socket is no longer
  OPEN at that moment, nothing is sent and the state does not change.
\<close>

theorem initial_status_message:
  "(ws_readyState s w = CONNECTING \<longrightarrow>
      (\<exists>k. socket_at s w = Some k \<and>
           tab_queries (step (WsOpen w) s) = tab_queries s @ [(env_tabId k, w)] \<and>
           (\<forall>t. ws_sent (step (TabsGetDone w (Some t)) (step (WsOpen w) s)) w
                  = sent k @ [status_frame (Some \<lparr>tab_id = env_tabId k,
                                 tab_title = or_unknown (chrome_title t),
                                 tab_url = or_unknown (chrome_url t)\<rparr>)]) \<and>
           step (TabsGetDone w None) (step (WsOpen w) s) = step (WsOpen w) s)) \<and>
   (ws_readyState s w \<noteq> OPEN \<longrightarrow> tabs_get_callback w tab s = s) \<and>
   or_unknown None = ''Unknown'' \<and> or_unknown (Some []) = ''Unknown'' \<and>
   (\<forall>v. v \<noteq> [] \<longrightarrow> or_unknown (Some v) = v)"
proof -
  have opened: "\<exists>k. socket_at s w = Some k \<and>
           tab_queries (step (WsOpen w) s) = tab_queries s @ [(env_tabId k, w)] \<and>
           (\<forall>t. ws_sent (step (TabsGetDone w (Some t)) (step (WsOpen w) s)) w
                  = sent k @ [status_frame (Some \<lparr>tab_id = env_tabId k,
                                 tab_title = or_unknown (chrome_title t),
                                 tab_url = or_unknown (chrome_url t)\<rparr>)]) \<and>
           step (TabsGetDone w None) (step (WsOpen w) s) = step (WsOpen w) s"
    if c: "ws_readyState s w = CONNECTING"
  proof -
    from c obtain k where k: "socket_at s w = Some k" "readyState k = CONNECTING"
      by (auto simp: ws_readyState_def split: option.splits)
    define s0 where "s0 = update_socket w (\<lambda>k. k\<lparr>readyState := OPEN\<rparr>) s"
    define s1 where "s1 = ws_onopen w s0"
    have st: "step (WsOpen w) s = s1" using c by (simp add: s1_def s0_def)
    have k0: "socket_at s0 w = Some (k\<lparr>readyState := OPEN\<rparr>)"
      using k by (simp add: s0_def socket_at_update)
    note o = onopen_result [OF k0, folded s1_def]
    have tq: "tab_queries s1 = tab_queries s @ [(env_tabId k, w)]"
      using o(6) by (simp add: s0_def update_socket_fields)
    from o(2,7,8) k0 obtain k1 where k1: "socket_at s1 w = Some k1" "readyState k1 = OPEN"
      "sent k1 = sent k"
      by (auto simp: ws_readyState_def ws_sent_def split: option.splits)
    have env: "env_tabId k1 = env_tabId k"
      using o(9) k1(1) by simp
    have inq: "(env_tabId k1, w) \<in> set (tab_queries s1)" using tq env by simp
    have "ws_sent (step (TabsGetDone w (Some t)) s1) w
                  = sent k @ [status_frame (Some \<lparr>tab_id = env_tabId k,
                                 tab_title = or_unknown (chrome_title t),
                                 tab_url = or_unknown (chrome_url t)\<rparr>)]" for t
      using k1 inq env sendStatus_open [OF k1(1,2)]
      by (simp add: tabs_get_callback_def)
    moreover have "step (TabsGetDone w None) s1 = s1"
      using k1 by (simp add: tabs_get_callback_def)
    ultimately show ?thesis using k tq unfolding st by blast
  qed
  have closed: "tabs_get_callback w tab s = s" if "ws_readyState s w \<noteq> OPEN"
    using that
    by (simp add: tabs_get_callback_def instance_sendStatusUpdate_def split: option.split)
  have unk: "or_unknown None = ''Unknown''" "or_unknown (Some []) = ''Unknown''"
    "\<forall>v. v \<noteq> [] \<longrightarrow> or_unknown (Some v) = v"
    by (simp_all add: or_unknown_def)
  from opened closed unk show ?thesis by blast
qed

theorem initial_status_message_witness:
  "ws_readyState (run [Connect ''sessionX'' 9001 42] init) 0 = CONNECTING \<and>
   ws_sent (run [Connect ''sessionX'' 9001 42, WsOpen 0,
                 TabsGetDone 0 (Some \<lparr>chrome_title = Some ''Home'', chrome_url = None\<rparr>)] init) 0
     = [JObj [(''type'', JStr ''EXTENSION_STATUS''),
              (''tab'', JObj [(''id'', JNum 42), (''title'', JStr ''Home''),
                              (''url'', JStr ''Unknown'')])]] \<and>
   tabs_get_callback 0 (Some \<lparr>chrome_title = Some ''Home'', chrome_url = None\<rparr>)
       (step (Connect ''sessionX'' 9001 42) init)
     = step (Connect ''sessionX'' 9001 42) init \<and>
   or_unknown (Some ''Home'') = ''Home''"
proof -
  let ?s = "step (Connect ''sessionX'' 9001 42) init"
  let ?k = "\<lparr> readyState = CONNECTING, url_port = 9001, sent = [],
           env_sessionName = ''sessionX'', env_port = 9001, env_tabId = 42, promise = Pending \<rparr>"
  let ?t = "\<lparr>chrome_title = Some ''Home'', chrome_url = None\<rparr>"
  have c: "ws_readyState ?s 0 = CONNECTING" and k: "socket_at ?s 0 = Some ?k"
    by (simp_all add: eval_defs)
  from initial_status_message [of ?s 0] c k
  have "ws_sent (step (TabsGetDone 0 (Some ?t)) (step (WsOpen 0) ?s)) 0
      = sent ?k @ [status_frame (Some \<lparr>tab_id = env_tabId ?k,
             tab_title = or_unknown (chrome_title ?t), tab_url = or_unknown (chrome_url ?t)\<rparr>)]"
    by (metis option.inject)
  moreover have "sent ?k @ [status_frame (Some \<lparr>tab_id = env_tabId ?k,
             tab_title = or_unknown (chrome_title ?t), tab_url = or_unknown (chrome_url ?t)\<rparr>)]
     = [JObj [(''type'', JStr ''EXTENSION_STATUS''),
              (''tab'', JObj [(''id'', JNum 42), (''title'', JStr ''Home''),
                              (''url'', JStr ''Unknown'')])]]"
    by (simp add: status_frame_def or_unknown_def)
  ultimately have "ws_sent (step (TabsGetDone 0 (Some ?t)) (step (WsOpen 0) ?s)) 0
     = [JObj [(''type'', JStr ''EXTENSION_STATUS''),
              (''tab'', JObj [(''id'', JNum 42), (''title'', JStr ''Home''),
                              (''url'', JStr ''Unknown'')])]]"
    by (rule trans)
  moreover from c have n: "ws_readyState ?s 0 \<noteq> OPEN" by simp
  from initial_status_message [of ?s 0 "Some ?t"] n
  have "tabs_get_callback 0 (Some ?t) ?s = ?s" by blast
  moreover have ne: "''Home'' \<noteq> []" by simp
  from initial_status_message [of ?s 0 "Some ?t"] ne
  have "or_unknown (Some ''Home'') = ''Home''" by blast
  ultimately show ?thesis using c by (simp only: run.simps simp_thms)
qed

subsection \<open>C10: disconnect of a client instance\<close>

text \<open>
  C10. The \<open>disconnect\<close> method of the instance built for socket \<open>w\<close>, in any state:
  it calls \<open>close()\<close> on \<open>w\<close> (an OPEN or CONNECTING socket becomes CLOSING; afterwards \<open>w\<close>
  is never OPEN), leaves every other socket as it is, and empties the slot whatever the
  slot holds. It does not stop the heartbeat or the keepalive alarm.
\<close>

theorem instance_disconnect_clears_slot:
  "currentConnection (instance_disconnect w s) = None \<and>
   (ws_readyState s w = OPEN \<or> ws_readyState s w = CONNECTING \<longrightarrow>
      ws_readyState (instance_disconnect w s) w = CLOSING) \<and>
   ws_readyState (instance_disconnect w s) w \<noteq> OPEN \<and>
   (\<forall>w'. w' \<noteq> w \<longrightarrow> ws_readyState (instance_disconnect w s) w' = ws_readyState s w') \<and>
   heartbeatInterval (instance_disconnect w s) = heartbeatInterval s \<and>
   timers (instance_disconnect w s) = timers s \<and>
   alarms (instance_disconnect w s) = alarms s"
proof -
  have rs: "ws_readyState (instance_disconnect w s) w' = ws_readyState (ws_close w s) w'" for w'
    unfolding instance_disconnect_def by (rule rs_frame) simp
  show ?thesis
    unfolding rs by (simp add: rs_close) (simp add: instance_disconnect_def ws_close_fields)
qed

theorem instance_disconnect_clears_slot_witness:
  "instance_held
     (run [Connect ''sessionA'' 9001 1, WsOpen 0, Connect ''sessionB'' 9002 2, WsOpen 1] init) 0 \<and>
   currentConnection
     (run [Connect ''sessionA'' 9001 1, WsOpen 0, Connect ''sessionB'' 9002 2, WsOpen 1] init)
     = Some \<lparr>ws = 1, sessionName = ''sessionB'', port = 9002, tabId = Some 2\<rparr> \<and>
   currentConnection
     (instance_disconnect 0
        (run [Connect ''sessionA'' 9001 1, WsOpen 0, Connect ''sessionB'' 9002 2, WsOpen 1] init))
     = None \<and>
   ws_readyState
     (instance_disconnect 0
        (run [Connect ''sessionA'' 9001 1, WsOpen 0, Connect ''sessionB'' 9002 2, WsOpen 1] init)) 1
     = OPEN \<and>
   ws_readyState
     (instance_disconnect 1
        (run [Connect ''sessionA'' 9001 1, WsOpen 0, Connect ''sessionB'' 9002 2, WsOpen 1] init)) 1
     = CLOSING"
proof -
  let ?s = "run [Connect ''sessionA'' 9001 1, WsOpen 0, Connect ''sessionB'' 9002 2, WsOpen 1] init"
  have h: "instance_held ?s 0"
    and c: "currentConnection ?s
      = Some \<lparr>ws = 1, sessionName = ''sessionB'', port = 9002, tabId = Some 2\<rparr>"
    and o: "ws_readyState ?s 1 = OPEN"
    by (simp_all add: eval_defs)
  have n: "(1::nat) \<noteq> 0" by simp
  from instance_disconnect_clears_slot [of 0 ?s] n o
  have 1: "currentConnection (instance_disconnect 0 ?s) = None \<and>
           ws_readyState (instance_disconnect 0 ?s) 1 = OPEN" by metis
  from instance_disconnect_clears_slot [of 1 ?s] o
  have 2: "ws_readyState (instance_disconnect 1 ?s) 1 = CLOSING" by blast
  from h c 1 2 show ?thesis by blast
qed

end
